theory Spec2Isabelle
  imports Complex_Main
begin

section \<open>Data model\<close>

text \<open>
  JavaScript numbers are modelled as real numbers (rounding of IEEE doubles and of the
  \<^verbatim>\<open>Float32Array\<close> stores is not modelled). \<^verbatim>\<open>Math.random()\<close> is modelled by an
  explicit source of draws \<open>rnd :: nat \<Rightarrow> real\<close> read at a position \<open>k\<close> that every
  draw advances by one; \<open>uniform01 rnd\<close> says that every draw lies in \<open>[0, 1)\<close>.

  The repository holds two revisions of the scene component: \<^verbatim>\<open>src/unnamed/part_000\<close>
  (which knows the shape \<^verbatim>\<open>'stool'\<close>) and \<^verbatim>\<open>src/components/Tree.tsx\<close> (which does
  not). Where they differ, the definition taken from \<^verbatim>\<open>src/components/Tree.tsx\<close> carries
  the suffix \<open>_comp\<close>.
\<close>

datatype TreeShape = Tree | Snowman | Reindeer | Santa | Real_tree | Diamond | Twin_towers | Stool

datatype TreeStyle = Classic | Crayon | Geometric

datatype Vector3 = Vector3 (vx: real) (vy: real) (vz: real)

type_synonym rng = "nat \<Rightarrow> real"

definition uniform01 :: "rng \<Rightarrow> bool" where
  "uniform01 rnd = (\<forall>n. 0 \<le> rnd n \<and> rnd n < 1)"

subsection \<open>Vector operations of the graphics library used by the code\<close>

definition vlength :: "Vector3 \<Rightarrow> real" where
  "vlength v = sqrt (vx v * vx v + vy v * vy v + vz v * vz v)"

definition distanceTo :: "Vector3 \<Rightarrow> Vector3 \<Rightarrow> real" where
  "distanceTo a b =
     (let dx = vx a - vx b; dy = vy a - vy b; dz = vz a - vz b
      in sqrt (dx * dx + dy * dy + dz * dz))"

definition multiplyScalar :: "Vector3 \<Rightarrow> real \<Rightarrow> Vector3" where
  "multiplyScalar v s = Vector3 (vx v * s) (vy v * s) (vz v * s)"

definition divideScalar :: "Vector3 \<Rightarrow> real \<Rightarrow> Vector3" where
  "divideScalar v s = multiplyScalar v (1 / s)"

text \<open>\<^verbatim>\<open>normalize()\<close> divides by \<^verbatim>\<open>this.length() || 1\<close>: the zero vector stays zero.\<close>

definition normalize_vec :: "Vector3 \<Rightarrow> Vector3" where
  "normalize_vec v = divideScalar v (if vlength v = 0 then 1 else vlength v)"

text \<open>\<^verbatim>\<open>Vector3.lerp(v, alpha)\<close>: each component moves by \<open>(v - this) * alpha\<close>.\<close>

definition vlerp :: "Vector3 \<Rightarrow> Vector3 \<Rightarrow> real \<Rightarrow> Vector3" where
  "vlerp a v alpha =
     Vector3 (vx a + (vx v - vx a) * alpha)
             (vy a + (vy v - vy a) * alpha)
             (vz a + (vz v - vz a) * alpha)"

text \<open>\<^verbatim>\<open>THREE.MathUtils.lerp(x, y, t)\<close>.\<close>

definition lerp :: "real \<Rightarrow> real \<Rightarrow> real \<Rightarrow> real" where
  "lerp x y t = (1 - t) * x + t * y"

section \<open>Radius profile\<close>

text \<open>\<^verbatim>\<open>getShapeRadiusAtY\<close> of \<^verbatim>\<open>src/unnamed/part_000\<close>.\<close>

definition getShapeRadiusAtY :: "real \<Rightarrow> TreeShape \<Rightarrow> real" where
  "getShapeRadiusAtY y shape =
     (if shape = Stool then
        (let t = (y + 7) / 14;
             tClamped = max 0 (min 1 t)
         in 6.5 * (1 - tClamped) + 5.0 * tClamped)
      else if shape = Tree \<or> shape = Real_tree \<or> shape = Diamond \<or> shape = Twin_towers then
        max 0 (9 * (1 - (y + 9) / 18))
      else if shape = Snowman then
        (if y < -3 then (let dy = y - (-6) in max 0 (sqrt (max 0 (4.5 * 4.5 - dy * dy))))
         else if y < 3 then (let dy = y - 0 in max 0 (sqrt (max 0 (3.5 * 3.5 - dy * dy))))
         else (let dy = y - 5 in max 0 (sqrt (max 0 (2.5 * 2.5 - dy * dy)))))
      else if shape = Santa then
        (if y < -2 then 5 else if y < 4 then 4 else 3)
      else if shape = Reindeer then
        (if y < -2 then 5.0 else if y < 4 then 4.5 else 4.5)
      else 0)"

text \<open>\<^verbatim>\<open>getShapeRadiusAtY\<close> of \<^verbatim>\<open>src/components/Tree.tsx\<close>: no stool branch, other
  reindeer radii.\<close>

definition getShapeRadiusAtY_comp :: "real \<Rightarrow> TreeShape \<Rightarrow> real" where
  "getShapeRadiusAtY_comp y shape =
     (if shape = Tree \<or> shape = Real_tree \<or> shape = Diamond \<or> shape = Twin_towers then
        max 0 (9 * (1 - (y + 9) / 18))
      else if shape = Snowman then
        (if y < -3 then (let dy = y - (-6) in max 0 (sqrt (max 0 (4.5 * 4.5 - dy * dy))))
         else if y < 3 then (let dy = y - 0 in max 0 (sqrt (max 0 (3.5 * 3.5 - dy * dy))))
         else (let dy = y - 5 in max 0 (sqrt (max 0 (2.5 * 2.5 - dy * dy)))))
      else if shape = Santa then
        (if y < -2 then 5 else if y < 4 then 4 else 3)
      else if shape = Reindeer then
        (if y < -2 then 3 else if y < 4 then 3.5 else 4)
      else 0)"

section \<open>Rejection sampling in a sphere\<close>

text \<open>
  \<^verbatim>\<open>getRandomPointInSphere(cy, r)\<close>: the loop \<^verbatim>\<open>while (safety-- > 0)\<close> with
  \<^verbatim>\<open>safety = 100\<close>. Each round draws three numbers. The result is the point and the
  position of the random source after the call.
\<close>

fun sphereLoop :: "rng \<Rightarrow> nat \<Rightarrow> nat \<Rightarrow> real \<Rightarrow> real \<Rightarrow> Vector3 \<times> nat" where
  "sphereLoop rnd 0 k cy r = (Vector3 0 cy 0, k)"
| "sphereLoop rnd (Suc safety) k cy r =
     (let u = rnd k * 2 - 1; v = rnd (k + 1) * 2 - 1; w = rnd (k + 2) * 2 - 1
      in if u * u + v * v + w * w < 1 then (Vector3 (u * r) (v * r + cy) (w * r), k + 3)
         else sphereLoop rnd safety (k + 3) cy r)"

definition getRandomPointInSphere :: "rng \<Rightarrow> nat \<Rightarrow> real \<Rightarrow> real \<Rightarrow> Vector3 \<times> nat" where
  "getRandomPointInSphere rnd k cy r = sphereLoop rnd 100 k cy r"

section \<open>Loops\<close>

text \<open>
  \<^verbatim>\<open>for (let i = 0; i < n; i++) body\<close> on a loop state \<open>s\<close>: the body runs for
  \<open>i = 0, ..., n - 1\<close> in this order. \<^verbatim>\<open>Array.from({length: n}).map(f)\<close> calls \<open>f\<close>
  in the same order; the state then holds the array built so far.
\<close>

primrec forUpTo :: "nat \<Rightarrow> (nat \<Rightarrow> 's \<Rightarrow> 's) \<Rightarrow> 's \<Rightarrow> 's" where
  "forUpTo 0 body s = s"
| "forUpTo (Suc n) body s = body n (forUpTo n body s)"

text \<open>\<^verbatim>\<open>xs[Math.floor(u * xs.length)]\<close>; an index outside the array reads
  \<^verbatim>\<open>undefined\<close>, here \<open>None\<close>.\<close>

definition pick :: "'a list \<Rightarrow> real \<Rightarrow> 'a option" where
  "pick xs u =
     (let j = \<lfloor>u * real (length xs)\<rfloor>
      in if 0 \<le> j \<and> j < int (length xs) then Some (xs ! nat j) else None)"

text \<open>\<^verbatim>\<open>Math.atan2(y, x)\<close> (signed zeros are not modelled).\<close>

definition atan2 :: "real \<Rightarrow> real \<Rightarrow> real" where
  "atan2 y x =
     (if 0 < x then arctan (y / x)
      else if x < 0 then (if 0 \<le> y then arctan (y / x) + pi else arctan (y / x) - pi)
      else if 0 < y then pi / 2
      else if y < 0 then - pi / 2
      else 0)"

section \<open>Constants of the scene component\<close>

definition height :: real where
  "height = 18"

definition radiusBottom :: real where
  "radiusBottom = 8"

definition leafCount :: "TreeStyle \<Rightarrow> nat" where
  "leafCount treeStyle =
     (if treeStyle = Geometric then 400 else (if treeStyle = Crayon then 1500 else 5000))"

definition isHighDensity :: "TreeShape \<Rightarrow> bool" where
  "isHighDensity shape =
     (shape = Real_tree \<or> shape = Diamond \<or> shape = Tree \<or> shape = Snowman \<or> shape = Reindeer)"

section \<open>Shape point generation\<close>

text \<open>The particle count of \<^verbatim>\<open>src/unnamed/part_000\<close>.\<close>

definition effectiveLeafCount :: "TreeStyle \<Rightarrow> TreeShape \<Rightarrow> nat" where
  "effectiveLeafCount treeStyle shape =
     (let e0 = (if isHighDensity shape then 10000 else leafCount treeStyle);
          e1 = (if shape = Diamond then 8000 else e0);
          e2 = (if shape = Stool then 0 else e1)
      in e2)"

text \<open>The particle count of \<^verbatim>\<open>src/components/Tree.tsx\<close>.\<close>

definition effectiveLeafCount_comp :: "TreeStyle \<Rightarrow> TreeShape \<Rightarrow> nat" where
  "effectiveLeafCount_comp treeStyle shape =
     (let e0 = (if isHighDensity shape then 15000 else leafCount treeStyle);
          e1 = (if shape = Diamond then 8000 else e0)
      in e1)"

text \<open>
  The radius of one sample of the tree body, from the height-dependent bound \<open>rMax\<close>, the
  draw \<open>rMode\<close> that chooses the scheme and the draw \<open>u\<close> that the chosen scheme uses.
\<close>

definition treeRadius :: "real \<Rightarrow> real \<Rightarrow> real \<Rightarrow> real" where
  "treeRadius rMax rMode u = (if rMode < 0.4 then rMax * u * 0.5 else rMax * sqrt u)"

text \<open>
  The branch \<^verbatim>\<open>shape === 'tree' || shape === 'twin_towers'\<close> of the loop body: the
  sample \<open>(x, y, z)\<close>, its colour string, and the position of the random source after it.
  \<open>hslHex\<close> stands for the colour library's \<^verbatim>\<open>'#' + setHSL(h, s, l).getHexString()\<close>.
\<close>

definition treeBranch ::
  "(real \<Rightarrow> real \<Rightarrow> real \<Rightarrow> string) \<Rightarrow> rng \<Rightarrow> nat \<Rightarrow> string \<Rightarrow>
   (real \<times> real \<times> real \<times> string) \<times> nat" where
  "treeBranch hslHex rnd k foliageColor =
     (let h = rnd k * height;
          progress = h / height;
          rMax = radiusBottom * (1 - progress);
          rMode = rnd (k + 1);
          r = treeRadius rMax rMode (rnd (k + 2));
          theta = rnd (k + 3) * 2 * pi;
          x = r * cos theta; y = h - height / 2; z = r * sin theta
      in if foliageColor = ''rainbow''
         then ((x, y, z, hslHex (rnd (k + 4)) 0.8 0.5), k + 5)
         else ((x, y, z, foliageColor), k + 4))"

datatype GeoShapeType = Box | Sphere

type_synonym geoItem = "Vector3 \<times> Vector3 \<times> string \<times> GeoShapeType"

record PointCloud =
  posArray :: "Vector3 list"
  colArray :: "(real \<times> real \<times> real) list"
  geoItems :: "geoItem list"

text \<open>
  One round of the generation loop. The samplers of the shapes other than tree, twin
  towers and stool are the parameter \<open>other\<close> (shape, random source, position, loop index);
  \<open>hexRGB\<close> stands for the colour library's parser of a colour string. The flat arrays
  \<^verbatim>\<open>posArray\<close> and \<^verbatim>\<open>colArray\<close> are kept as lists of triples.
\<close>

definition pointBody ::
  "(TreeShape \<Rightarrow> rng \<Rightarrow> nat \<Rightarrow> nat \<Rightarrow> (real \<times> real \<times> real \<times> string) \<times> nat) \<Rightarrow>
   (real \<Rightarrow> real \<Rightarrow> real \<Rightarrow> string) \<Rightarrow> (string \<Rightarrow> real \<times> real \<times> real) \<Rightarrow>
   rng \<Rightarrow> TreeStyle \<Rightarrow> string \<Rightarrow> TreeShape \<Rightarrow> nat \<Rightarrow> PointCloud \<times> nat \<Rightarrow> PointCloud \<times> nat" where
  "pointBody other hslHex hexRGB rnd treeStyle foliageColor shape i st =
     (let (cloud, k) = st;
          ((x, y, z, colorHex), k1) =
            (if shape = Stool then ((0, 0, 0, foliageColor), k)
             else if shape = Tree \<or> shape = Twin_towers then treeBranch hslHex rnd k foliageColor
             else other shape rnd k i);
          (cr, cg, cb) = hexRGB colorHex;
          boost = (if shape = Diamond \<or> foliageColor = ''rainbow'' \<or> foliageColor = ''#FFD700''
                      \<or> foliageColor = ''#C0C0C0'' then 1.5 else 1.0);
          cloud1 = cloud\<lparr>posArray := posArray cloud @ [Vector3 x y z],
                         colArray := colArray cloud @ [(cr * boost, cg * boost, cb * boost)]\<rparr>
      in if treeStyle = Geometric \<and> \<not> isHighDensity shape \<and> shape \<noteq> Stool then
           (let initialPos = Vector3 x y z;
                explodedPos = multiplyScalar (normalize_vec initialPos) (15 + rnd k1 * 10);
                shapeType = (if rnd (k1 + 1) > 0.5 then Box else Sphere)
            in (cloud1\<lparr>geoItems := geoItems cloud1 @ [(initialPos, explodedPos, colorHex, shapeType)]\<rparr>,
                k1 + 2))
         else (cloud1, k1))"

definition emptyCloud :: PointCloud where
  "emptyCloud = \<lparr>posArray = [], colArray = [], geoItems = []\<rparr>"

text \<open>The generator of \<^verbatim>\<open>src/unnamed/part_000\<close>.\<close>

definition shapePoints ::
  "(TreeShape \<Rightarrow> rng \<Rightarrow> nat \<Rightarrow> nat \<Rightarrow> (real \<times> real \<times> real \<times> string) \<times> nat) \<Rightarrow>
   (real \<Rightarrow> real \<Rightarrow> real \<Rightarrow> string) \<Rightarrow> (string \<Rightarrow> real \<times> real \<times> real) \<Rightarrow>
   rng \<Rightarrow> nat \<Rightarrow> TreeStyle \<Rightarrow> string \<Rightarrow> TreeShape \<Rightarrow> PointCloud \<times> nat" where
  "shapePoints other hslHex hexRGB rnd k treeStyle foliageColor shape =
     forUpTo (effectiveLeafCount treeStyle shape)
       (pointBody other hslHex hexRGB rnd treeStyle foliageColor shape) (emptyCloud, k)"

text \<open>
  The generator of \<^verbatim>\<open>src/components/Tree.tsx\<close>: its own particle count, no stool branch
  and no stool test before the geometric items.
\<close>

definition pointBody_comp ::
  "(TreeShape \<Rightarrow> rng \<Rightarrow> nat \<Rightarrow> nat \<Rightarrow> (real \<times> real \<times> real \<times> string) \<times> nat) \<Rightarrow>
   (real \<Rightarrow> real \<Rightarrow> real \<Rightarrow> string) \<Rightarrow> (string \<Rightarrow> real \<times> real \<times> real) \<Rightarrow>
   rng \<Rightarrow> TreeStyle \<Rightarrow> string \<Rightarrow> TreeShape \<Rightarrow> nat \<Rightarrow> PointCloud \<times> nat \<Rightarrow> PointCloud \<times> nat" where
  "pointBody_comp other hslHex hexRGB rnd treeStyle foliageColor shape i st =
     (let (cloud, k) = st;
          ((x, y, z, colorHex), k1) =
            (if shape = Tree \<or> shape = Twin_towers then treeBranch hslHex rnd k foliageColor
             else other shape rnd k i);
          (cr, cg, cb) = hexRGB colorHex;
          boost = (if shape = Diamond \<or> foliageColor = ''rainbow'' \<or> foliageColor = ''#FFD700''
                      \<or> foliageColor = ''#C0C0C0'' then 1.5 else 1.0);
          cloud1 = cloud\<lparr>posArray := posArray cloud @ [Vector3 x y z],
                         colArray := colArray cloud @ [(cr * boost, cg * boost, cb * boost)]\<rparr>
      in if treeStyle = Geometric \<and> \<not> isHighDensity shape then
           (let initialPos = Vector3 x y z;
                explodedPos = multiplyScalar (normalize_vec initialPos) (15 + rnd k1 * 10);
                shapeType = (if rnd (k1 + 1) > 0.5 then Box else Sphere)
            in (cloud1\<lparr>geoItems := geoItems cloud1 @ [(initialPos, explodedPos, colorHex, shapeType)]\<rparr>,
                k1 + 2))
         else (cloud1, k1))"

definition shapePoints_comp ::
  "(TreeShape \<Rightarrow> rng \<Rightarrow> nat \<Rightarrow> nat \<Rightarrow> (real \<times> real \<times> real \<times> string) \<times> nat) \<Rightarrow>
   (real \<Rightarrow> real \<Rightarrow> real \<Rightarrow> string) \<Rightarrow> (string \<Rightarrow> real \<times> real \<times> real) \<Rightarrow>
   rng \<Rightarrow> nat \<Rightarrow> TreeStyle \<Rightarrow> string \<Rightarrow> TreeShape \<Rightarrow> PointCloud \<times> nat" where
  "shapePoints_comp other hslHex hexRGB rnd k treeStyle foliageColor shape =
     forUpTo (effectiveLeafCount_comp treeStyle shape)
       (pointBody_comp other hslHex hexRGB rnd treeStyle foliageColor shape) (emptyCloud, k)"

section \<open>Santa's point sampler\<close>


section \<open>Decorations\<close>

type_synonym triple = "real \<times> real \<times> real"

type_synonym bauble = "triple \<times> string option \<times> real"

type_synonym gift = "triple \<times> string option \<times> real \<times> triple"

type_synonym flower = "triple \<times> string option \<times> real \<times> triple"

datatype DecorType = DecorBox | DecorOctahedron

record Decorations =
  baubles :: "bauble list"
  gifts :: "gift list"
  ribbons :: "unit list"
  flowers :: "flower list"
  geometricDecors :: "(triple \<times> real \<times> DecorType) list"

definition noDecorations :: Decorations where
  "noDecorations = \<lparr>baubles = [], gifts = [], ribbons = [], flowers = [], geometricDecors = []\<rparr>"

definition supportsDecor :: "TreeShape \<Rightarrow> bool" where
  "supportsDecor shape =
     (shape = Tree \<or> shape = Real_tree \<or> shape = Diamond \<or> shape = Twin_towers)"

definition baublePalette :: "bool \<Rightarrow> string list" where
  "baublePalette isSilver =
     (if isSilver then [''#ef4444'', ''#C0C0C0'', ''#3b82f6'', ''#ffffff'']
      else [''#ef4444'', ''#FFD700'', ''#22c55e''])"

definition flowerPalette :: "string list" where
  "flowerPalette = [''#ec4899'', ''#fbcfe8'', ''#ffffff'']"

definition decorCount :: "TreeShape \<Rightarrow> nat" where
  "decorCount shape = (if shape = Real_tree then 24 else (if shape = Diamond then 80 else 200))"

text \<open>One round of the decoration loop (the same text in both revisions).\<close>

definition decorBody ::
  "rng \<Rightarrow> TreeShape \<Rightarrow> bool \<Rightarrow> nat \<Rightarrow> nat \<Rightarrow> Decorations \<times> nat \<Rightarrow> Decorations \<times> nat" where
  "decorBody rnd shape isSilver count i st =
     (let (d, k) = st;
          scale = 0.2 + rnd k * 0.3
      in if shape = Real_tree then
           (let goldenAngle = pi * (3 - sqrt 5);
                y = -7.5 + (real i / (real count - 1)) * 15;
                rBase = (radiusBottom * (1 - (y + 9) / 18)) + 1.0;
                r = rBase * 1.1;
                theta = real i * goldenAngle * 3;
                pos = (r * cos theta, y, r * sin theta);
                rotation = (0, atan2 (fst pos) (snd (snd pos)), 0);
                scale1 = 0.8 + rnd (k + 1) * 0.5
            in (d\<lparr>flowers := flowers d @ [(pos, pick flowerPalette (rnd (k + 2)), scale1, rotation)]\<rparr>,
                k + 3))
         else if shape = Diamond then (d, k + 1)
         else
           (let h = rnd (k + 1) * height;
                rBase = (radiusBottom * (1 - h / height));
                r = rBase * 0.9;
                theta = rnd (k + 2) * 2 * pi;
                pos = (r * cos theta, h - height / 2, r * sin theta)
            in if rnd (k + 3) > 0.3 then
                 (d\<lparr>baubles := baubles d @ [(pos, pick (baublePalette isSilver) (rnd (k + 4)), scale)]\<rparr>,
                  k + 5)
               else
                 (d\<lparr>gifts := gifts d @
                      [(pos, pick [''#8b5cf6'', ''#ec4899''] (rnd (k + 4)), scale,
                        (rnd (k + 5), rnd (k + 6), 0))]\<rparr>,
                  k + 7)))"

definition decorations :: "rng \<Rightarrow> nat \<Rightarrow> TreeShape \<Rightarrow> bool \<Rightarrow> Decorations \<times> nat" where
  "decorations rnd k shape isSilver =
     (if \<not> supportsDecor shape then (noDecorations, k)
      else forUpTo (decorCount shape) (decorBody rnd shape isSilver (decorCount shape))
             (noDecorations, k))"

section \<open>Pearl garland of the diamond shape\<close>

type_synonym pearl = "Vector3 \<times> real"

definition strands :: nat where
  "strands = 1"

definition loops :: nat where
  "loops = 6"

definition pearlsPerLoop :: nat where
  "pearlsPerLoop = 200"

definition totalPerStrand :: nat where
  "totalPerStrand = loops * pearlsPerLoop"

text \<open>The body of the inner loop, for strand \<open>s\<close> and pearl \<open>i\<close>.\<close>

definition pearlBody :: "rng \<Rightarrow> nat \<Rightarrow> nat \<Rightarrow> pearl list \<times> nat \<Rightarrow> pearl list \<times> nat" where
  "pearlBody rnd s i st =
     (let (data, k) = st;
          strandOffset = (real s * pi * 2) / real strands;
          t = real i / real totalPerStrand;
          hBase = (height / 2) - (t * height);
          progress = (hBase + (height / 2)) / height;
          rCone = max 0.2 (9 * (1 - progress));
          angle = (t * real loops * pi * 2) + strandOffset;
          drapeFreq = 12;
          drapePhase = (sin (angle * drapeFreq) + 1) / 2;
          rOffset = (1 - drapePhase) * 0.5;
          hOffset = (1 - drapePhase) * 0.8;
          r = rCone + rOffset + 0.2;
          h = hBase - hOffset;
          jitterX = (rnd k - 0.5) * 0.05;
          jitterY = (rnd (k + 1) - 0.5) * 0.05;
          jitterZ = (rnd (k + 2) - 0.5) * 0.05;
          scale = 0.1 + rnd (k + 3) * 0.1
      in (data @ [(Vector3 (r * cos angle + jitterX) (h + jitterY) (r * sin angle + jitterZ), scale)],
          k + 4))"

definition pearlsData :: "rng \<Rightarrow> nat \<Rightarrow> TreeShape \<Rightarrow> pearl list \<times> nat" where
  "pearlsData rnd k shape =
     (if shape \<noteq> Diamond then ([], k)
      else forUpTo strands (\<lambda>s. forUpTo totalPerStrand (pearlBody rnd s)) ([], k))"

text \<open>
  The placement as the specification words it, for the pearl of index \<open>i\<close>: the spiral
  parameter, the base height, the cone radius, the spiral angle, the drape phase, and the
  radial distance and height before the jitter.
\<close>

definition spec_t :: "nat \<Rightarrow> real" where
  "spec_t i = real i / 1200"

definition spec_hBase :: "nat \<Rightarrow> real" where
  "spec_hBase i = 9 - spec_t i * 18"

definition spec_coneRadius :: "real \<Rightarrow> real" where
  "spec_coneRadius h = max 0.2 (9 * (1 - (h + 9) / 18))"

definition spec_angle :: "nat \<Rightarrow> real" where
  "spec_angle i = spec_t i * 6 * (2 * pi)"

definition spec_drapePhase :: "nat \<Rightarrow> real" where
  "spec_drapePhase i = (sin (spec_angle i * 12) + 1) / 2"

definition spec_radial :: "nat \<Rightarrow> real" where
  "spec_radial i = spec_coneRadius (spec_hBase i) + 0.2 + (1 - spec_drapePhase i) * 0.5"

definition spec_height :: "nat \<Rightarrow> real" where
  "spec_height i = spec_hBase i - (1 - spec_drapePhase i) * 0.8"

section \<open>Photo layout\<close>

datatype LayoutItem = LayoutItem (initialPos: Vector3) (explodedPos: Vector3) (initialRot: Vector3)

text \<open>
  \<^verbatim>\<open>new THREE.Object3D()\<close> gives the new object an identifier, for which the graphics
  library calls \<^verbatim>\<open>Math.random()\<close> four times. The identifier plays no part in the
  layout, but the random source moves on by four draws for every slot.
\<close>

definition uuidDraws :: nat where
  "uuidDraws = 4"

text \<open>
  One slot of the layout of \<^verbatim>\<open>src/unnamed/part_000\<close>. \<open>orient position target\<close> stands for
  the graphics library's Euler angles of an object at \<open>position\<close> after
  \<^verbatim>\<open>lookAt(target)\<close> and \<^verbatim>\<open>rotateY(Math.PI)\<close>. The draws at \<open>k, ..., k + 3\<close> are
  those of \<^verbatim>\<open>new THREE.Object3D()\<close>; the scatter factor and the vertical jitter read
  the two draws after them.
\<close>

definition layoutItem ::
  "(Vector3 \<Rightarrow> Vector3 \<Rightarrow> Vector3) \<Rightarrow> rng \<Rightarrow> TreeShape \<Rightarrow> nat \<Rightarrow> nat \<Rightarrow> nat \<Rightarrow> LayoutItem \<times> nat" where
  "layoutItem orient rnd shape count i k =
     (let goldenAngle = pi * (3 - sqrt 5);
          t = real i / real count;
          (h, rBase) =
            (if shape = Stool then
               (let h = -8 + t * 16;
                    ribbonT = (h - (-10)) / 19.5;
                    ribbonR = 9.5 - (ribbonT * 6.0)
                in (h, ribbonR + 0.5))
             else
               (let h = (t * 14) - 7
                in (h, getShapeRadiusAtY h shape)));
          r = rBase + 0.8;
          theta = real i * goldenAngle * 10;
          x = r * cos theta;
          y = h;
          z = r * sin theta;
          position = Vector3 x y z;
          k1 = k + uuidDraws;
          rotation = orient position (Vector3 0 y 0);
          scattered = multiplyScalar (normalize_vec position) (10 + rnd k1 * 8);
          explodedPosition =
            Vector3 (vx scattered) (vy scattered + (rnd (k1 + 1) - 0.5) * 10) (vz scattered)
      in (LayoutItem position explodedPosition rotation, k1 + 2))"

definition layout ::
  "(Vector3 \<Rightarrow> Vector3 \<Rightarrow> Vector3) \<Rightarrow> rng \<Rightarrow> nat \<Rightarrow> nat \<Rightarrow> TreeShape \<Rightarrow> LayoutItem list \<times> nat" where
  "layout orient rnd k photosLength shape =
     (let count = (if photosLength > 0 then photosLength else 24)
      in forUpTo count
           (\<lambda>i (items, k1). (let (item, k2) = layoutItem orient rnd shape count i k1
                             in (items @ [item], k2)))
           ([], k))"

text \<open>The layout of \<^verbatim>\<open>src/components/Tree.tsx\<close>: no stool branch, its own radius profile.\<close>

definition layoutItem_comp ::
  "(Vector3 \<Rightarrow> Vector3 \<Rightarrow> Vector3) \<Rightarrow> rng \<Rightarrow> TreeShape \<Rightarrow> nat \<Rightarrow> nat \<Rightarrow> nat \<Rightarrow> LayoutItem \<times> nat" where
  "layoutItem_comp orient rnd shape count i k =
     (let goldenAngle = pi * (3 - sqrt 5);
          t = real i / real count;
          h = (t * 14) - 7;
          rBase = getShapeRadiusAtY_comp h shape;
          r = rBase + 0.8;
          theta = real i * goldenAngle * 10;
          x = r * cos theta;
          y = h;
          z = r * sin theta;
          position = Vector3 x y z;
          k1 = k + uuidDraws;
          rotation = orient position (Vector3 0 y 0);
          scattered = multiplyScalar (normalize_vec position) (10 + rnd k1 * 8);
          explodedPosition =
            Vector3 (vx scattered) (vy scattered + (rnd (k1 + 1) - 0.5) * 10) (vz scattered)
      in (LayoutItem position explodedPosition rotation, k1 + 2))"

definition layout_comp ::
  "(Vector3 \<Rightarrow> Vector3 \<Rightarrow> Vector3) \<Rightarrow> rng \<Rightarrow> nat \<Rightarrow> nat \<Rightarrow> TreeShape \<Rightarrow> LayoutItem list \<times> nat" where
  "layout_comp orient rnd k photosLength shape =
     (let count = (if photosLength > 0 then photosLength else 24)
      in forUpTo count
           (\<lambda>i (items, k1). (let (item, k2) = layoutItem_comp orient rnd shape count i k1
                             in (items @ [item], k2)))
           ([], k))"

section \<open>Frame update\<close>

text \<open>The live transform of a scene object: position, scale and Euler angles.\<close>

datatype Object3D = Object3D (obj_position: Vector3) (obj_scale: Vector3) (obj_rotation: Vector3)

text \<open>A photo item: the layout of its slot and \<^verbatim>\<open>ref.current\<close>, which may be null.\<close>

type_synonym photoItem = "LayoutItem \<times> Object3D option"

text \<open>The body of \<^verbatim>\<open>photoItems.forEach\<close> in the frame callback.\<close>

definition photoItemFrame :: "real \<Rightarrow> bool \<Rightarrow> photoItem \<Rightarrow> photoItem" where
  "photoItemFrame delta isExploded item =
     (let lerpFactor = delta * 2;
          (lay, cur) = item
      in case cur of
           None \<Rightarrow> item
         | Some obj \<Rightarrow>
             (let targetPos = (if isExploded then explodedPos lay else initialPos lay);
                  position1 = vlerp (obj_position obj) targetPos lerpFactor;
                  targetScale = (if isExploded then 4.5 else 1);
                  scale1 = vlerp (obj_scale obj) (Vector3 targetScale targetScale targetScale) lerpFactor;
                  rot = obj_rotation obj;
                  rotation1 =
                    (if isExploded then Vector3 (vx rot + delta * 0.2) (vy rot + delta * 0.2) (vz rot)
                     else Vector3 (lerp (vx rot) (vx (initialRot lay)) lerpFactor)
                                  (lerp (vy rot) (vy (initialRot lay)) lerpFactor)
                                  (lerp (vz rot) (vz (initialRot lay)) lerpFactor))
              in (lay, Some (Object3D position1 scale1 rotation1))))"

record Scene =
  groupRotationY :: "real option"
  foliageScale :: "Vector3 option"
  photoItems :: "photoItem list"

definition useFrame :: "real \<Rightarrow> bool \<Rightarrow> real \<Rightarrow> Scene \<Rightarrow> Scene" where
  "useFrame delta isExploded gestureRotation sc =
     (let lerpFactor = delta * 2
      in \<lparr>groupRotationY =
            map_option (\<lambda>ry. ry + (delta * 0.05 + (gestureRotation * 0.05))) (groupRotationY sc),
          foliageScale =
            map_option
              (\<lambda>sv. let targetScale = (if isExploded then 4 else 1)
                    in vlerp sv (Vector3 targetScale targetScale targetScale) lerpFactor)
              (foliageScale sc),
          photoItems = map (photoItemFrame delta isExploded) (photoItems sc)\<rparr>)"

text \<open>The live position of a photo item after \<open>n\<close> frames of the same length.\<close>

definition positionAfter :: "nat \<Rightarrow> real \<Rightarrow> bool \<Rightarrow> photoItem \<Rightarrow> Vector3 option" where
  "positionAfter n delta isExploded item =
     map_option obj_position (snd ((photoItemFrame delta isExploded ^^ n) item))"

definition targetOf :: "bool \<Rightarrow> photoItem \<Rightarrow> Vector3" where
  "targetOf isExploded item = (if isExploded then explodedPos (fst item) else initialPos (fst item))"

text \<open>The distance between the live position of a photo item, after \<open>n\<close> frames of the same
  length, and its target (0 when the item has no live object).\<close>

definition distanceAfter :: "nat \<Rightarrow> real \<Rightarrow> bool \<Rightarrow> photoItem \<Rightarrow> real" where
  "distanceAfter n delta isExploded item =
     (case positionAfter n delta isExploded item of
        Some p \<Rightarrow> distanceTo p (targetOf isExploded item)
      | None \<Rightarrow> 0)"

section \<open>Gesture handling\<close>

datatype GestureType = Open_Palm | Victory | Closed_Fist | NoGesture

datatype AppMode = TreeMode | FocusMode | AlbumMode

record PhotoData =
  photoId :: string
  url :: string
  version :: nat
  isEmpty :: bool

text \<open>The calls of state setters that the handler makes, in the order it makes them.\<close>

datatype Action =
    SetIsExploded bool
  | SetIsTwinkling bool
  | CycleTreeColor
  | SetActivePhoto "PhotoData option"
  | SetMode AppMode
  | SetGestureX real
  | SetLastGesture GestureType

definition TREE_COLORS :: "string list" where
  "TREE_COLORS = [''#064e3b'', ''#FFD700'', ''#C0C0C0'', ''rainbow'']"

text \<open>
  \<^verbatim>\<open>handleGesture(gesture, x)\<close>, closed over \<open>lastGesture\<close> and \<open>photos\<close>; \<open>now\<close> is the
  value of \<^verbatim>\<open>Date.now()\<close>, \<open>u\<close> the draw of \<^verbatim>\<open>Math.random()\<close> and \<open>lastColorChange\<close>
  the value of the ref of that name, whose new value is returned with the setter calls.
\<close>

definition handleGesture ::
  "GestureType \<Rightarrow> PhotoData list \<Rightarrow> int \<Rightarrow> real \<Rightarrow> int \<Rightarrow> GestureType \<Rightarrow> real \<Rightarrow> Action list \<times> int" where
  "handleGesture lastGesture photos now u lastColorChange gesture x =
     (let a1 = (if gesture = Open_Palm then [SetIsExploded True]
                else if lastGesture = Open_Palm then [SetIsExploded False]
                else []);
          (a2, lastColorChange1) =
               (if gesture = Closed_Fist then
                  (if now - lastColorChange > 300
                   then ([SetIsTwinkling True, CycleTreeColor], now)
                   else ([SetIsTwinkling True], lastColorChange))
                else if lastGesture = Closed_Fist then ([SetIsTwinkling False], lastColorChange)
                else ([], lastColorChange));
          a3 = (if gesture = Victory \<and> lastGesture \<noteq> Victory then
                  (let validPhotos = filter (\<lambda>p. \<not> isEmpty p) photos
                   in if length validPhotos > 0
                      then (let randomPhoto = pick validPhotos u
                            in [SetActivePhoto randomPhoto, SetMode FocusMode])
                      else [])
                else []);
          a4 = (if gesture = Closed_Fist then [SetGestureX 3.0]
                else if gesture \<noteq> NoGesture then (let rotationSpeed = (x - 0.5) * 4
                                                   in [SetGestureX rotationSpeed])
                else [SetGestureX 0])
      in (a1 @ a2 @ a3 @ a4 @ [SetLastGesture gesture], lastColorChange1))"

record AppState =
  isExploded :: bool
  isTwinkling :: bool
  treeColorIndex :: nat
  activePhoto :: "PhotoData option"
  mode :: AppMode
  gestureX :: real
  lastGesture :: GestureType
  photos :: "PhotoData list"
  lastColorChange :: int

fun applyAction :: "Action \<Rightarrow> AppState \<Rightarrow> AppState" where
  "applyAction (SetIsExploded b) st = st\<lparr>isExploded := b\<rparr>"
| "applyAction (SetIsTwinkling b) st = st\<lparr>isTwinkling := b\<rparr>"
| "applyAction CycleTreeColor st =
     st\<lparr>treeColorIndex := (treeColorIndex st + 1) mod length TREE_COLORS\<rparr>"
| "applyAction (SetActivePhoto p) st = st\<lparr>activePhoto := p\<rparr>"
| "applyAction (SetMode m) st = st\<lparr>mode := m\<rparr>"
| "applyAction (SetGestureX v) st = st\<lparr>gestureX := v\<rparr>"
| "applyAction (SetLastGesture g) st = st\<lparr>lastGesture := g\<rparr>"

text \<open>One sampled gesture: the handler of the current render runs, then its setter calls
  take effect.\<close>

definition gestureStep :: "int \<Rightarrow> real \<Rightarrow> GestureType \<Rightarrow> real \<Rightarrow> AppState \<Rightarrow> AppState" where
  "gestureStep now u gesture x st =
     (let (acts, lcc) = handleGesture (lastGesture st) (photos st) now u (lastColorChange st) gesture x
      in (fold applyAction acts st)\<lparr>lastColorChange := lcc\<rparr>)"

text \<open>The jump to a random photo is the call \<^verbatim>\<open>setActivePhoto\<close>, only made there.\<close>

fun isJump :: "Action \<Rightarrow> bool" where
  "isJump (SetActivePhoto p) = True"
| "isJump a = False"

definition issuesJump :: "Action list \<Rightarrow> bool" where
  "issuesJump acts = list_ex isJump acts"

section \<open>Closed forms used in the statements and proofs\<close>

text \<open>The number of slots of the photo layout: \<^verbatim>\<open>photos.length > 0 ? photos.length : 24\<close>.\<close>

definition slotCount :: "nat \<Rightarrow> nat" where
  "slotCount photosLength = (if photosLength > 0 then photosLength else 24)"








text \<open>
  The distance of a point from the vertical axis; the position of the tree sample that
  reads its draws from position \<open>k\<close> on; and the number of draws one tree sample reads.
\<close>

definition horizontalRadius :: "Vector3 \<Rightarrow> real" where
  "horizontalRadius p = sqrt (vx p * vx p + vz p * vz p)"

definition treePosition ::
  "(real \<Rightarrow> real \<Rightarrow> real \<Rightarrow> string) \<Rightarrow> rng \<Rightarrow> nat \<Rightarrow> string \<Rightarrow> Vector3" where
  "treePosition hslHex rnd k foliageColor =
     (case fst (treeBranch hslHex rnd k foliageColor) of (x, y, z, c) \<Rightarrow> Vector3 x y z)"

definition treeDraws :: "string \<Rightarrow> nat" where
  "treeDraws foliageColor = (if foliageColor = ''rainbow'' then 5 else 4)"

text \<open>Two sample photos: one that holds a picture, and an empty slot.\<close>

definition photoA :: PhotoData where
  "photoA = \<lparr>photoId = ''slot-0'', url = ''a.png'', version = 1, isEmpty = False\<rparr>"

definition photoB :: PhotoData where
  "photoB = \<lparr>photoId = ''slot-1'', url = '''', version = 0, isEmpty = True\<rparr>"






section \<open>Properties of the radius profile\<close>

lemma sq_ge: "a \<le> \<bar>d\<bar> \<Longrightarrow> 0 \<le> a \<Longrightarrow> a * a - d * d \<le> (0::real)"
proof -
  assume a: "a \<le> \<bar>d\<bar>" "0 \<le> a"
  have "a * a \<le> \<bar>d\<bar> * \<bar>d\<bar>" using a by (intro mult_mono) auto
  then show ?thesis by simp
qed

lemma radius_nonneg: "0 \<le> getShapeRadiusAtY y shape"
  unfolding getShapeRadiusAtY_def Let_def
  by (cases shape) (auto simp: min_def max_def)

lemma radius_nonneg_comp: "0 \<le> getShapeRadiusAtY_comp y shape"
  unfolding getShapeRadiusAtY_comp_def Let_def
  by (cases shape) (auto simp: min_def max_def)

lemma snowman_low:
  "y \<le> -10.5 \<Longrightarrow> max 0 (sqrt (max 0 (4.5 * 4.5 - (y - (-6)) * (y - (-6))))) = 0"
proof -
  assume "y \<le> -10.5"
  then have "4.5 * 4.5 - (y - (-6)) * (y - (-6)) \<le> 0" by (intro sq_ge) auto
  then show ?thesis by (simp add: max_def)
qed

lemma snowman_high:
  "7.5 \<le> y \<Longrightarrow> max 0 (sqrt (max 0 (2.5 * 2.5 - (y - 5) * (y - 5)))) = 0"
proof -
  assume "7.5 \<le> y"
  then have "2.5 * 2.5 - (y - 5) * (y - 5) \<le> 0" by (intro sq_ge) auto
  then show ?thesis by (simp add: max_def)
qed

lemma snowman_zero:
  assumes "y \<le> -10.5 \<or> 7.5 \<le> y"
  shows "getShapeRadiusAtY y Snowman = 0" and "getShapeRadiusAtY_comp y Snowman = 0"
  using assms snowman_low [of y] snowman_high [of y]
  by (auto simp: getShapeRadiusAtY_def getShapeRadiusAtY_comp_def Let_def)

lemma cone_zero:
  assumes "shape = Tree \<or> shape = Real_tree \<or> shape = Diamond \<or> shape = Twin_towers"
    and "9 \<le> y"
  shows "getShapeRadiusAtY y shape = 0" and "getShapeRadiusAtY_comp y shape = 0"
  using assms by (auto simp: getShapeRadiusAtY_def getShapeRadiusAtY_comp_def max_def)

lemma step_positive:
  assumes "shape = Santa \<or> shape = Reindeer"
  shows "3 \<le> getShapeRadiusAtY y shape" and "3 \<le> getShapeRadiusAtY_comp y shape"
  using assms by (auto simp: getShapeRadiusAtY_def getShapeRadiusAtY_comp_def)

lemma stool_range: "5 \<le> getShapeRadiusAtY y Stool \<and> getShapeRadiusAtY y Stool \<le> 6.5"
proof -
  define c where "c = max 0 (min 1 ((y + 7) / 14))"
  have c: "0 \<le> c" "c \<le> 1" by (auto simp: c_def)
  have "getShapeRadiusAtY y Stool = 6.5 * (1 - c) + 5.0 * c"
    by (simp add: getShapeRadiusAtY_def Let_def c_def)
  then show ?thesis using c by (simp add: field_simps)
qed

text \<open>
  Claim C1, as the code has it. In both revisions the radius is never negative. It is 0
  for the cone shapes (tree, real tree, diamond, twin towers) at every height \<open>y \<ge> 9\<close>, so
  at \<open>y = 20\<close> for the tree, and for the snowman at every height \<open>y \<le> -10.5\<close> or
  \<open>y \<ge> 7.5\<close>. The profiles of Santa and of the reindeer are step functions whose lowest
  and highest bands have no outer end: their radius is at least 3 at every height. The
  stool's radius (\<^verbatim>\<open>part_000\<close> only) stays between 5 and 6.5.
\<close>

theorem C1_radius_profile:
  "0 \<le> getShapeRadiusAtY y shape \<and> 0 \<le> getShapeRadiusAtY_comp y shape \<and>
   ((shape = Tree \<or> shape = Real_tree \<or> shape = Diamond \<or> shape = Twin_towers) \<and> 9 \<le> y \<longrightarrow>
      getShapeRadiusAtY y shape = 0 \<and> getShapeRadiusAtY_comp y shape = 0) \<and>
   (shape = Snowman \<and> (y \<le> -10.5 \<or> 7.5 \<le> y) \<longrightarrow>
      getShapeRadiusAtY y shape = 0 \<and> getShapeRadiusAtY_comp y shape = 0) \<and>
   (shape = Santa \<or> shape = Reindeer \<longrightarrow>
      3 \<le> getShapeRadiusAtY y shape \<and> 3 \<le> getShapeRadiusAtY_comp y shape) \<and>
   (shape = Stool \<longrightarrow> 5 \<le> getShapeRadiusAtY y shape \<and> getShapeRadiusAtY y shape \<le> 6.5 \<and>
      getShapeRadiusAtY_comp y shape = 0)"
  using radius_nonneg [of y shape] radius_nonneg_comp [of y shape] cone_zero [of shape y]
    snowman_zero [of y] step_positive [of shape y] stool_range [of y]
  by (auto simp: getShapeRadiusAtY_comp_def)

theorem C1_radius_profile_witness:
  "getShapeRadiusAtY 20 Tree = 0 \<and> getShapeRadiusAtY_comp 20 Tree = 0 \<and>
   0 \<le> getShapeRadiusAtY (-8) Snowman \<and>
   getShapeRadiusAtY (-11) Snowman = 0 \<and> getShapeRadiusAtY_comp 8 Snowman = 0 \<and>
   3 \<le> getShapeRadiusAtY 20 Santa \<and> 3 \<le> getShapeRadiusAtY_comp (-20) Reindeer \<and>
   5 \<le> getShapeRadiusAtY 0 Stool"
  using C1_radius_profile [of 20 Tree] C1_radius_profile [of "-8" Snowman]
    C1_radius_profile [of "-11" Snowman] C1_radius_profile [of 8 Snowman]
    C1_radius_profile [of 20 Santa] C1_radius_profile [of "-20" Reindeer]
    C1_radius_profile [of 0 Stool]
  by simp

text \<open>
  Claim C1 as stated fails: far above and far below the figure the radius of Santa and of
  the reindeer is not 0.
\<close>

theorem C1_santa_counterexample:
  "getShapeRadiusAtY 20 Santa = 3 \<and> getShapeRadiusAtY (-20) Santa = 5 \<and>
   getShapeRadiusAtY_comp 20 Reindeer = 4 \<and> getShapeRadiusAtY (-20) Reindeer = 5"
  by (simp add: getShapeRadiusAtY_def getShapeRadiusAtY_comp_def)

section \<open>Properties of the rejection sampler\<close>

lemma scaled_ball:
  assumes r: "0 \<le> r" and s: "u * u + v * v + w * w < (1::real)"
  shows "sqrt (u * r * (u * r) + v * r * (v * r) + w * r * (w * r)) \<le> r"
proof -
  have e: "u * r * (u * r) + v * r * (v * r) + w * r * (w * r) = (u * u + v * v + w * w) * (r * r)"
    by (simp add: algebra_simps)
  have "(u * u + v * v + w * w) * (r * r) \<le> 1 * (r * r)"
    using s by (intro mult_right_mono) auto
  then have "sqrt ((u * u + v * v + w * w) * (r * r)) \<le> sqrt (r * r)"
    by (simp only: real_sqrt_le_iff mult_1)
  moreover have "sqrt (r * r) = r" using r by simp
  ultimately show ?thesis using e by simp
qed

lemma sphereLoop_ok:
  "0 \<le> r \<Longrightarrow> sphereLoop rnd n k cy r = (p, k') \<Longrightarrow>
     k \<le> k' \<and> k' \<le> k + 3 * n \<and> 3 dvd (k' - k) \<and> distanceTo p (Vector3 0 cy 0) \<le> r"
proof (induction n arbitrary: k)
  case 0
  then show ?case by (auto simp: distanceTo_def)
next
  case (Suc n)
  let ?u = "rnd k * 2 - 1" and ?v = "rnd (k + 1) * 2 - 1" and ?w = "rnd (k + 2) * 2 - 1"
  show ?case
  proof (cases "?u * ?u + ?v * ?v + ?w * ?w < 1")
    case True
    then have p: "p = Vector3 (?u * r) (?v * r + cy) (?w * r)" and k': "k' = k + 3"
      using Suc.prems(2) by (simp_all add: Let_def)
    have "distanceTo p (Vector3 0 cy 0) \<le> r"
      unfolding p distanceTo_def Let_def using scaled_ball [OF Suc.prems(1) True] by simp
    then show ?thesis using k' by simp
  next
    case False
    then have "sphereLoop rnd n (k + 3) cy r = (p, k')"
      using Suc.prems(2) by (simp add: Let_def)
    from Suc.IH [OF Suc.prems(1) this]
    have ih: "k + 3 \<le> k'" "k' \<le> k + 3 + 3 * n" "3 dvd (k' - (k + 3))"
      "distanceTo p (Vector3 0 cy 0) \<le> r" by auto
    have e: "k' - k = (k' - (k + 3)) + 3" using ih(1) by linarith
    have "3 dvd (k' - (k + 3)) + 3" using ih(3) by (rule dvd_add) simp
    then have "3 dvd (k' - k)" by (subst e)
    moreover have "k' \<le> k + 3 * Suc n" using ih(2) by simp
    moreover have "k \<le> k'" using ih(1) by linarith
    ultimately show ?thesis using ih(4) by blast
  qed
qed

text \<open>A source whose every candidate is rejected: the loop gives up after \<open>n\<close> rounds.\<close>

lemma sphereLoop_reject:
  "sphereLoop (\<lambda>_. 0) n k cy r = (Vector3 0 cy 0, k + 3 * n)"
  by (induction n arbitrary: k) (simp_all add: Let_def)

text \<open>
  Claim C2. For every centre height \<open>cy\<close>, every radius \<open>r \<ge> 0\<close> and every random source,
  \<^verbatim>\<open>getRandomPointInSphere\<close> returns after at most 100 candidates (each candidate
  reads three draws, so the source advances by a multiple of 3 that is at most 300), and
  the point it returns, the fallback \<open>(0, cy, 0)\<close> included, is at distance at most \<open>r\<close>
  from \<open>(0, cy, 0)\<close>.
\<close>

theorem C2_point_in_sphere:
  assumes "0 \<le> r" and "getRandomPointInSphere rnd k cy r = (p, k')"
  shows "k \<le> k' \<and> k' - k \<le> 3 * 100 \<and> 3 dvd (k' - k) \<and> distanceTo p (Vector3 0 cy 0) \<le> r"
proof -
  have s: "sphereLoop rnd 100 k cy r = (p, k')"
    using assms(2) by (simp only: getRandomPointInSphere_def)
  from sphereLoop_ok [OF assms(1) s]
  have a: "k \<le> k'" and b: "k' \<le> k + 3 * 100" and c: "3 dvd (k' - k)"
    and d: "distanceTo p (Vector3 0 cy 0) \<le> r" by blast+
  have "k' - k \<le> 3 * 100" using b by linarith
  then show ?thesis using a c d by blast
qed

text \<open>The witness runs the fallback (every candidate rejected) and a first-round hit.\<close>

theorem C2_point_in_sphere_witness:
  "getRandomPointInSphere (\<lambda>_. 0) 0 1 2 = (Vector3 0 1 0, 300) \<and>
   distanceTo (Vector3 0 1 0) (Vector3 0 1 0) \<le> 2 \<and>
   getRandomPointInSphere (\<lambda>_. 3 / 4) 0 1 2 = (Vector3 1 2 1, 3) \<and>
   distanceTo (Vector3 1 2 1) (Vector3 0 1 0) \<le> 2"
proof -
  have h: "(0::real) \<le> 2" by simp
  have a: "getRandomPointInSphere (\<lambda>_. 0) 0 1 2 = (Vector3 0 1 0, 300)"
    using sphereLoop_reject [of 100 0 1 2] by (simp add: getRandomPointInSphere_def)
  have b: "getRandomPointInSphere (\<lambda>_. 3 / 4) 0 1 2 = (Vector3 1 2 1, 3)"
    by (simp add: getRandomPointInSphere_def numeral_eq_Suc Let_def)
  have da: "distanceTo (Vector3 0 1 0) (Vector3 0 1 0) \<le> 2"
    using C2_point_in_sphere [OF h a] by (rule conjunct2 [THEN conjunct2, THEN conjunct2])
  have db: "distanceTo (Vector3 1 2 1) (Vector3 0 1 0) \<le> 2"
    using C2_point_in_sphere [OF h b] by (rule conjunct2 [THEN conjunct2, THEN conjunct2])
  show ?thesis using a b da db by (intro conjI)
qed

section \<open>Properties of the photo layout\<close>

lemma layoutItem_snd: "snd (layoutItem orient rnd shape count i k) = k + 6"
  by (simp add: layoutItem_def Let_def split_def uuidDraws_def)

lemma layoutItem_comp_snd: "snd (layoutItem_comp orient rnd shape count i k) = k + 6"
  by (simp add: layoutItem_comp_def Let_def split_def uuidDraws_def)

lemma forUpTo_collect:
  assumes "\<And>i acc k. body i (acc, k) = (acc @ [f i k], k + d)"
  shows "forUpTo n body ([], k0) = (map (\<lambda>i. f i (k0 + d * i)) [0..<n], k0 + d * n)"
  by (induction n) (simp_all add: assms)

lemma layout_loop:
  "forUpTo n (\<lambda>i (items, k1). (let (item, k2) = layoutItem orient rnd shape count i k1
                                  in (items @ [item], k2))) ([], k)
   = (map (\<lambda>i. fst (layoutItem orient rnd shape count i (k + 6 * i))) [0..<n], k + 6 * n)"
  by (rule forUpTo_collect) (simp add: split_def Let_def layoutItem_snd)

lemma layout_comp_loop:
  "forUpTo n (\<lambda>i (items, k1). (let (item, k2) = layoutItem_comp orient rnd shape count i k1
                                  in (items @ [item], k2))) ([], k)
   = (map (\<lambda>i. fst (layoutItem_comp orient rnd shape count i (k + 6 * i))) [0..<n], k + 6 * n)"
  by (rule forUpTo_collect) (simp add: split_def Let_def layoutItem_comp_snd)

lemma layout_eq:
  "layout orient rnd k n shape =
     (map (\<lambda>i. fst (layoutItem orient rnd shape (slotCount n) i (k + 6 * i))) [0..<slotCount n],
      k + 6 * slotCount n)"
  using layout_loop [of "slotCount n" orient rnd shape "slotCount n" k]
  by (simp add: layout_def Let_def slotCount_def)

lemma layout_comp_eq:
  "layout_comp orient rnd k n shape =
     (map (\<lambda>i. fst (layoutItem_comp orient rnd shape (slotCount n) i (k + 6 * i))) [0..<slotCount n],
      k + 6 * slotCount n)"
  using layout_comp_loop [of "slotCount n" orient rnd shape "slotCount n" k]
  by (simp add: layout_comp_def Let_def slotCount_def)

text \<open>
  Claim C6. With an empty photo list the layout has exactly 24 slots; with \<open>n > 0\<close> photos
  it has exactly \<open>n\<close> slots (both revisions).
\<close>

theorem C6_placeholder_count:
  "length (fst (layout orient rnd k 0 shape)) = 24 \<and>
   length (fst (layout_comp orient rnd k 0 shape)) = 24 \<and>
   (0 < n \<longrightarrow> length (fst (layout orient rnd k n shape)) = n \<and>
               length (fst (layout_comp orient rnd k n shape)) = n)"
  by (simp add: layout_eq layout_comp_eq slotCount_def)

theorem C6_placeholder_count_witness:
  "length (fst (layout (\<lambda>p t. p) (\<lambda>_. 1 / 2) 0 0 Diamond)) = 24 \<and>
   length (fst (layout (\<lambda>p t. p) (\<lambda>_. 1 / 2) 0 5 Diamond)) = 5 \<and>
   length (fst (layout_comp (\<lambda>p t. p) (\<lambda>_. 1 / 2) 0 5 Snowman)) = 5"
  using C6_placeholder_count [of "\<lambda>p t. p" "\<lambda>_. 1 / 2" 0 Diamond 5]
    C6_placeholder_count [of "\<lambda>p t. p" "\<lambda>_. 1 / 2" 0 Snowman 5]
  by simp

lemma layoutItem_pos_indep:
  "initialPos (fst (layoutItem orient rnd1 shape count i k1)) =
   initialPos (fst (layoutItem orient rnd2 shape count i k2))"
  "initialRot (fst (layoutItem orient rnd1 shape count i k1)) =
   initialRot (fst (layoutItem orient rnd2 shape count i k2))"
  by (simp_all add: layoutItem_def Let_def split_def)

lemma layoutItem_comp_pos_indep:
  "initialPos (fst (layoutItem_comp orient rnd1 shape count i k1)) =
   initialPos (fst (layoutItem_comp orient rnd2 shape count i k2))"
  "initialRot (fst (layoutItem_comp orient rnd1 shape count i k1)) =
   initialRot (fst (layoutItem_comp orient rnd2 shape count i k2))"
  by (simp_all add: layoutItem_comp_def Let_def split_def)

text \<open>
  Claim C3. For a fixed photo count and shape, two runs of the layout generator, whatever
  their random draws \<open>rnd1\<close>, \<open>rnd2\<close> and wherever they start reading them, give
  the same assembled position and the same assembled rotation at every index.
\<close>

theorem C3_assembled_deterministic:
  "map initialPos (fst (layout orient rnd1 k1 n shape)) =
     map initialPos (fst (layout orient rnd2 k2 n shape)) \<and>
   map initialRot (fst (layout orient rnd1 k1 n shape)) =
     map initialRot (fst (layout orient rnd2 k2 n shape)) \<and>
   map initialPos (fst (layout_comp orient rnd1 k1 n shape)) =
     map initialPos (fst (layout_comp orient rnd2 k2 n shape)) \<and>
   map initialRot (fst (layout_comp orient rnd1 k1 n shape)) =
     map initialRot (fst (layout_comp orient rnd2 k2 n shape))"
  using layoutItem_pos_indep [of orient rnd1 shape "slotCount n" _ _ rnd2]
    layoutItem_comp_pos_indep [of orient rnd1 shape "slotCount n" _ _ rnd2]
  by (simp add: layout_eq layout_comp_eq)


















section \<open>Properties of the decoration generator\<close>

lemma forUpTo_invariant:
  assumes "P 0 s0" and "\<And>i s. i < n \<Longrightarrow> P i s \<Longrightarrow> P (Suc i) (body i s)"
  shows "P n (forUpTo n body s0)"
  using assms
proof (induction n)
  case 0
  then show ?case by simp
next
  case (Suc n)
  have "P n (forUpTo n body s0)"
    using Suc.IH [OF Suc.prems(1)] Suc.prems(2) by simp
  then show ?case using Suc.prems(2) [of n] by simp
qed

lemma decorBody_diamond: "decorBody rnd Diamond isSilver count i (d, k) = (d, k + 1)"
  by (simp add: decorBody_def Let_def)

lemma decorations_diamond: "decorations rnd k Diamond isSilver = (noDecorations, k + 80)"
proof -
  have "forUpTo n (decorBody rnd Diamond isSilver c) (noDecorations, k) = (noDecorations, k + n)" for n c
    by (induction n) (simp_all add: decorBody_diamond)
  then show ?thesis by (simp add: decorations_def supportsDecor_def decorCount_def)
qed

lemma decorations_unsupported:
  "\<not> supportsDecor shape \<Longrightarrow> decorations rnd k shape isSilver = (noDecorations, k)"
  by (simp add: decorations_def)

lemma decorBody_flower:
  "length (flowers (fst (decorBody rnd Real_tree isSilver count i (d, k)))) = Suc (length (flowers d)) \<and>
   baubles (fst (decorBody rnd Real_tree isSilver count i (d, k))) = baubles d \<and>
   gifts (fst (decorBody rnd Real_tree isSilver count i (d, k))) = gifts d \<and>
   ribbons (fst (decorBody rnd Real_tree isSilver count i (d, k))) = ribbons d \<and>
   geometricDecors (fst (decorBody rnd Real_tree isSilver count i (d, k))) = geometricDecors d"
  by (simp add: decorBody_def Let_def)

lemma decorBody_bauble_or_gift:
  assumes "shape = Tree \<or> shape = Twin_towers"
  shows
  "length (baubles (fst (decorBody rnd shape isSilver count i (d, k)))) +
     length (gifts (fst (decorBody rnd shape isSilver count i (d, k)))) =
       Suc (length (baubles d) + length (gifts d)) \<and>
   flowers (fst (decorBody rnd shape isSilver count i (d, k))) = flowers d \<and>
   ribbons (fst (decorBody rnd shape isSilver count i (d, k))) = ribbons d \<and>
   geometricDecors (fst (decorBody rnd shape isSilver count i (d, k))) = geometricDecors d"
  using assms by (auto simp add: decorBody_def Let_def)

lemma decorations_real_tree:
  "let d = fst (decorations rnd k Real_tree isSilver)
   in length (flowers d) = 24 \<and> baubles d = [] \<and> gifts d = [] \<and> ribbons d = [] \<and>
      geometricDecors d = []"
proof -
  define P where "P = (\<lambda>(n::nat) (st :: Decorations \<times> nat).
     length (flowers (fst st)) = n \<and> baubles (fst st) = [] \<and> gifts (fst st) = [] \<and>
     ribbons (fst st) = [] \<and> geometricDecors (fst st) = [])"
  have "P 24 (forUpTo 24 (decorBody rnd Real_tree isSilver 24) (noDecorations, k))"
  proof (rule forUpTo_invariant)
    show "P 0 (noDecorations, k)" by (simp add: P_def noDecorations_def)
  next
    fix i and s :: "Decorations \<times> nat"
    assume "P i s"
    obtain d k0 where s: "s = (d, k0)" by (cases s)
    show "P (Suc i) (decorBody rnd Real_tree isSilver 24 i s)"
      using \<open>P i s\<close> decorBody_flower [of rnd isSilver 24 i d k0] by (simp add: P_def s)
  qed
  then show ?thesis
    by (simp add: decorations_def supportsDecor_def decorCount_def P_def Let_def)
qed

lemma decorations_tree:
  assumes "shape = Tree \<or> shape = Twin_towers"
  shows "let d = fst (decorations rnd k shape isSilver)
   in length (baubles d) + length (gifts d) = 200 \<and> ribbons d = [] \<and> flowers d = [] \<and>
      geometricDecors d = []"
proof -
  define P where "P = (\<lambda>(n::nat) (st :: Decorations \<times> nat).
     length (baubles (fst st)) + length (gifts (fst st)) = n \<and> flowers (fst st) = [] \<and>
     ribbons (fst st) = [] \<and> geometricDecors (fst st) = [])"
  have "P 200 (forUpTo 200 (decorBody rnd shape isSilver 200) (noDecorations, k))"
  proof (rule forUpTo_invariant)
    show "P 0 (noDecorations, k)" by (simp add: P_def noDecorations_def)
  next
    fix i and s :: "Decorations \<times> nat"
    assume "P i s"
    obtain d k0 where s: "s = (d, k0)" by (cases s)
    show "P (Suc i) (decorBody rnd shape isSilver 200 i s)"
      using \<open>P i s\<close> decorBody_bauble_or_gift [OF assms, of rnd isSilver 200 i d k0]
      by (simp add: P_def s)
  qed
  then show ?thesis using assms
    by (auto simp add: decorations_def supportsDecor_def decorCount_def P_def Let_def)
qed

text \<open>
  Claim C7, as the code has it. The decoration generator returns 200 baubles and gifts
  together for the tree and the twin towers, and 24 flowers for the real tree, every
  other list being empty. For every other shape all five lists are empty; this includes
  the diamond, which passes the \<^verbatim>\<open>supportsDecor\<close> test but whose loop body adds
  nothing.
\<close>

theorem C7_decorations:
  "let d = fst (decorations rnd k shape isSilver)
   in (shape = Tree \<or> shape = Twin_towers \<longrightarrow>
         length (baubles d) + length (gifts d) = 200 \<and> ribbons d = [] \<and> flowers d = [] \<and>
         geometricDecors d = []) \<and>
      (shape = Real_tree \<longrightarrow>
         length (flowers d) = 24 \<and> baubles d = [] \<and> gifts d = [] \<and> ribbons d = [] \<and>
         geometricDecors d = []) \<and>
      (shape \<noteq> Tree \<and> shape \<noteq> Twin_towers \<and> shape \<noteq> Real_tree \<longrightarrow> d = noDecorations)"
proof -
  have a: "shape \<noteq> Tree \<and> shape \<noteq> Twin_towers \<and> shape \<noteq> Real_tree \<Longrightarrow>
           fst (decorations rnd k shape isSilver) = noDecorations"
    using decorations_diamond [of rnd k isSilver] decorations_unsupported [of shape rnd k isSilver]
    by (cases shape) (simp_all add: supportsDecor_def)
  show ?thesis
    using a decorations_tree [of shape rnd k isSilver] decorations_real_tree [of rnd k isSilver]
    unfolding Let_def by blast
qed

theorem C7_decorations_witness:
  "length (baubles (fst (decorations (\<lambda>_. 1 / 2) 0 Tree False))) +
     length (gifts (fst (decorations (\<lambda>_. 1 / 2) 0 Tree False))) = 200 \<and>
   length (flowers (fst (decorations (\<lambda>_. 1 / 2) 0 Real_tree False))) = 24 \<and>
   fst (decorations (\<lambda>_. 1 / 2) 0 Santa False) = noDecorations"
  using C7_decorations [of "\<lambda>_. 1 / 2" 0 Tree False]
    C7_decorations [of "\<lambda>_. 1 / 2" 0 Real_tree False]
    C7_decorations [of "\<lambda>_. 1 / 2" 0 Santa False]
  unfolding Let_def by simp

text \<open>
  Claim C7 as stated fails: the diamond is decoration-capable and its lists are all empty.
\<close>

theorem C7_diamond_counterexample:
  "supportsDecor Diamond \<and> decorations (\<lambda>_. 1 / 2) 0 Diamond False = (noDecorations, 80) \<and>
   baubles noDecorations = [] \<and> gifts noDecorations = [] \<and> ribbons noDecorations = [] \<and>
   flowers noDecorations = [] \<and> geometricDecors noDecorations = []"
  using decorations_diamond [of "\<lambda>_. 1 / 2" 0 False]
  by (simp add: supportsDecor_def noDecorations_def)

section \<open>Properties of the pearl garland\<close>

lemma pearlBody_append:
  "pearlBody rnd s i (acc, k) = (acc @ [hd (fst (pearlBody rnd s i ([], k)))], k + 4)"
  by (simp add: pearlBody_def Let_def)

lemma pearlsData_diamond:
  "pearlsData rnd k Diamond =
     (map (\<lambda>i. hd (fst (pearlBody rnd 0 i ([], k + 4 * i)))) [0..<1200], k + 4 * 1200)"
proof -
  have "forUpTo 1200 (pearlBody rnd 0) ([], k) =
        (map (\<lambda>i. hd (fst (pearlBody rnd 0 i ([], k + 4 * i)))) [0..<1200], k + 4 * 1200)"
    by (rule forUpTo_collect) (rule pearlBody_append)
  moreover have "forUpTo strands body st = body 0 st" for body :: "nat \<Rightarrow> (pearl list \<times> nat) \<Rightarrow> _" and st
    by (simp add: strands_def)
  ultimately show ?thesis
    by (simp add: pearlsData_def totalPerStrand_def loops_def pearlsPerLoop_def)
qed

lemma pearl_spec:
  "fst (hd (fst (pearlBody rnd 0 i ([], k)))) =
     Vector3 (spec_radial i * cos (spec_angle i) + (rnd k - 0.5) * 0.05)
             (spec_height i + (rnd (k + 1) - 0.5) * 0.05)
             (spec_radial i * sin (spec_angle i) + (rnd (k + 2) - 0.5) * 0.05)"
proof -
  have t: "real i / real totalPerStrand = spec_t i"
    by (simp add: totalPerStrand_def loops_def pearlsPerLoop_def spec_t_def)
  have hb: "(height / 2) - (spec_t i * height) = spec_hBase i"
    by (simp add: height_def spec_hBase_def)
  have rc: "max 0.2 (9 * (1 - (spec_hBase i + (height / 2)) / height)) = spec_coneRadius (spec_hBase i)"
    by (simp add: height_def spec_coneRadius_def)
  have an: "(spec_t i * real loops * pi * 2) + (real (0::nat) * pi * 2) / real strands = spec_angle i"
    by (simp add: loops_def strands_def spec_angle_def)
  have dp: "(sin (spec_angle i * 12) + 1) / 2 = spec_drapePhase i"
    by (simp add: spec_drapePhase_def)
  have ra: "spec_coneRadius (spec_hBase i) + (1 - spec_drapePhase i) * 0.5 + 0.2 = spec_radial i"
    by (simp add: spec_radial_def)
  have he: "spec_hBase i - (1 - spec_drapePhase i) * 0.8 = spec_height i"
    by (simp add: spec_height_def)
  show ?thesis
    unfolding pearlBody_def Let_def split_conv t hb rc an dp ra he by simp
qed

lemma drapePhase_range: "0 \<le> spec_drapePhase i \<and> spec_drapePhase i \<le> 1"
proof -
  have "-1 \<le> sin (spec_angle i * 12)" "sin (spec_angle i * 12) \<le> 1"
    by (rule sin_ge_minus_one, rule sin_le_one)
  then have "0 \<le> sin (spec_angle i * 12) + 1" "sin (spec_angle i * 12) + 1 \<le> 2"
    by linarith+
  then show ?thesis unfolding spec_drapePhase_def by simp
qed

text \<open>
  Claim C8. The garland of the diamond has 1200 pearls. For every index \<open>i < 1200\<close> the
  drape phase of the specification lies in \<open>[0, 1]\<close>, and the position that the code
  stores for pearl \<open>i\<close> is the point at radial distance \<open>spec_radial i\<close>, angle
  \<open>spec_angle i\<close> and height \<open>spec_height i\<close> (the placement as the specification
  words it) plus the three jitter terms, each a draw minus one half, times 0.05.
\<close>

theorem C8_pearl_drape:
  assumes "i < 1200"
  shows "length (fst (pearlsData rnd k Diamond)) = 1200 \<and>
         0 \<le> spec_drapePhase i \<and> spec_drapePhase i \<le> 1 \<and>
         fst (fst (pearlsData rnd k Diamond) ! i) =
           Vector3 (spec_radial i * cos (spec_angle i) + (rnd (k + 4 * i) - 0.5) * 0.05)
                   (spec_height i + (rnd (k + 4 * i + 1) - 0.5) * 0.05)
                   (spec_radial i * sin (spec_angle i) + (rnd (k + 4 * i + 2) - 0.5) * 0.05)"
  using assms drapePhase_range [of i] pearl_spec [of rnd i "k + 4 * i"]
  by (simp add: pearlsData_diamond)

theorem C8_pearl_drape_witness:
  "spec_drapePhase 0 = 1 / 2 \<and> spec_radial 0 = 0.65 \<and> spec_height 0 = 8.6 \<and>
   fst (fst (pearlsData (\<lambda>_. 1 / 2) 0 Diamond) ! 0) = Vector3 0.65 8.6 0"
proof -
  have a: "spec_angle 0 = 0" by (simp add: spec_angle_def spec_t_def)
  have d: "spec_drapePhase 0 = 1 / 2" by (simp add: spec_drapePhase_def a)
  have h: "spec_hBase 0 = 9" by (simp add: spec_hBase_def spec_t_def)
  have r: "spec_radial 0 = 0.65" by (simp add: spec_radial_def spec_coneRadius_def h d)
  have e: "spec_height 0 = 8.6" by (simp add: spec_height_def h d)
  have "(0::nat) < 1200" by simp
  from C8_pearl_drape [OF this, of "\<lambda>_. 1 / 2" 0]
  have "fst (fst (pearlsData (\<lambda>_. 1 / 2) 0 Diamond) ! 0) = Vector3 0.65 8.6 0"
    by (simp add: a r e)
  then show ?thesis using d r e by blast
qed

section \<open>Properties of the tree point generator\<close>

lemma treeRadius_range:
  assumes "0 \<le> rMax" and "0 \<le> u" and "u < 1"
  shows "0 \<le> treeRadius rMax rMode u \<and> treeRadius rMax rMode u \<le> rMax \<and>
         (rMode < 0.4 \<longrightarrow> treeRadius rMax rMode u = rMax * u * 0.5 \<and> treeRadius rMax rMode u \<le> rMax * 0.5) \<and>
         (\<not> rMode < 0.4 \<longrightarrow> treeRadius rMax rMode u = rMax * sqrt u)"
proof -
  have s: "0 \<le> sqrt u" "sqrt u \<le> 1" using assms by simp_all
  have a1: "0 \<le> rMax * sqrt u" using assms(1) s(1) by (rule mult_nonneg_nonneg)
  have a2: "rMax * sqrt u \<le> rMax * 1" using s(2) assms(1) by (rule mult_left_mono)
  have b1: "0 \<le> rMax * u" using assms(1,2) by (rule mult_nonneg_nonneg)
  have b2: "rMax * u \<le> rMax * 1" using assms(1,3) by (intro mult_left_mono) simp_all
  show ?thesis
  proof (cases "rMode < 0.4")
    case True
    then have e: "treeRadius rMax rMode u = rMax * u * 0.5" by (simp add: treeRadius_def)
    show ?thesis unfolding e using True b1 b2 assms(1) by simp
  next
    case False
    then have e: "treeRadius rMax rMode u = rMax * sqrt u" by (simp add: treeRadius_def)
    show ?thesis unfolding e using False a1 a2 by simp
  qed
qed

lemma ring_radius: "0 \<le> r \<Longrightarrow> sqrt (r * cos a * (r * cos a) + r * sin a * (r * sin a)) = r"
proof -
  assume r: "0 \<le> r"
  have "r * cos a * (r * cos a) + r * sin a * (r * sin a) = r * r * ((sin a)\<^sup>2 + (cos a)\<^sup>2)"
    unfolding power2_eq_square by (simp only: algebra_simps)
  also have "\<dots> = r * r" by (simp only: sin_cos_squared_add mult_1_right)
  finally show ?thesis using r by simp
qed

lemma treeBranch_snd: "snd (treeBranch hslHex rnd k fc) = k + treeDraws fc"
  by (simp add: treeBranch_def Let_def treeDraws_def)

lemma treePosition_eq:
  "treePosition hslHex rnd k fc =
     (let h = rnd k * 18;
          r = treeRadius (8 * (1 - h / 18)) (rnd (k + 1)) (rnd (k + 2));
          theta = rnd (k + 3) * 2 * pi
      in Vector3 (r * cos theta) (h - 9) (r * sin theta))"
  by (simp add: treePosition_def treeBranch_def Let_def height_def radiusBottom_def)

lemma treePosition_bounds:
  assumes "uniform01 rnd"
  shows "-9 \<le> vy (treePosition hslHex rnd k fc) \<and> vy (treePosition hslHex rnd k fc) \<le> 9 \<and>
         horizontalRadius (treePosition hslHex rnd k fc) =
           treeRadius (8 * (1 - rnd k)) (rnd (k + 1)) (rnd (k + 2)) \<and>
         horizontalRadius (treePosition hslHex rnd k fc) \<le>
           getShapeRadiusAtY (vy (treePosition hslHex rnd k fc)) Tree \<and>
         horizontalRadius (treePosition hslHex rnd k fc) \<le>
           getShapeRadiusAtY_comp (vy (treePosition hslHex rnd k fc)) Tree"
proof -
  have u0: "0 \<le> rnd k" "rnd k < 1" and u2: "0 \<le> rnd (k + 2)" "rnd (k + 2) < 1"
    using assms by (simp_all add: uniform01_def)
  define rMax where "rMax = 8 * (1 - rnd k)"
  define r where "r = treeRadius rMax (rnd (k + 1)) (rnd (k + 2))"
  have rMax: "0 \<le> rMax" using u0 by (simp add: rMax_def)
  have r: "0 \<le> r" "r \<le> rMax" using treeRadius_range [OF rMax u2] by (simp_all add: r_def)
  have p: "treePosition hslHex rnd k fc =
           Vector3 (r * cos (rnd (k + 3) * 2 * pi)) (rnd k * 18 - 9) (r * sin (rnd (k + 3) * 2 * pi))"
    by (simp add: treePosition_eq Let_def r_def rMax_def)
  have hr: "horizontalRadius (treePosition hslHex rnd k fc) = r"
    unfolding p horizontalRadius_def Vector3.sel by (rule ring_radius [OF r(1)])
  have y: "vy (treePosition hslHex rnd k fc) = rnd k * 18 - 9" by (simp add: p)
  have g: "getShapeRadiusAtY (rnd k * 18 - 9) Tree = 9 * (1 - rnd k)"
          "getShapeRadiusAtY_comp (rnd k * 18 - 9) Tree = 9 * (1 - rnd k)"
    using u0 by (simp_all add: getShapeRadiusAtY_def getShapeRadiusAtY_comp_def max_def)
  have le: "r \<le> 9 * (1 - rnd k)" using r(2) u0 by (simp add: rMax_def)
  show ?thesis
    unfolding hr y g using u0 le by (simp add: r_def rMax_def)
qed

lemma pointBody_tree:
  "posArray (fst (pointBody other hslHex hexRGB rnd treeStyle fc Tree i (cloud, k))) =
     posArray cloud @ [treePosition hslHex rnd k fc] \<and>
   snd (pointBody other hslHex hexRGB rnd treeStyle fc Tree i (cloud, k)) = k + treeDraws fc"
  by (simp add: pointBody_def Let_def split_def isHighDensity_def treePosition_def treeBranch_snd)

lemma pointBody_comp_tree:
  "posArray (fst (pointBody_comp other hslHex hexRGB rnd treeStyle fc Tree i (cloud, k))) =
     posArray cloud @ [treePosition hslHex rnd k fc] \<and>
   snd (pointBody_comp other hslHex hexRGB rnd treeStyle fc Tree i (cloud, k)) = k + treeDraws fc"
  by (simp add: pointBody_comp_def Let_def split_def isHighDensity_def treePosition_def treeBranch_snd)

lemma tree_loop:
  assumes "\<And>i cloud k. posArray (fst (body i (cloud, k))) = posArray cloud @ [treePosition hslHex rnd k fc] \<and>
                          snd (body i (cloud, k)) = k + treeDraws fc"
  shows "posArray (fst (forUpTo n body (emptyCloud, k0))) =
           map (\<lambda>i. treePosition hslHex rnd (k0 + treeDraws fc * i) fc) [0..<n] \<and>
         snd (forUpTo n body (emptyCloud, k0)) = k0 + treeDraws fc * n"
proof (induction n)
  case 0
  show ?case by (simp add: emptyCloud_def)
next
  case (Suc n)
  obtain cloud k where s: "forUpTo n body (emptyCloud, k0) = (cloud, k)"
    by (cases "forUpTo n body (emptyCloud, k0)")
  show ?case using Suc assms [of n cloud k] by (simp add: s)
qed

lemma shapePoints_tree:
  "posArray (fst (shapePoints other hslHex hexRGB rnd k treeStyle fc Tree)) =
     map (\<lambda>i. treePosition hslHex rnd (k + treeDraws fc * i) fc) [0..<10000]"
  using tree_loop [of "pointBody other hslHex hexRGB rnd treeStyle fc Tree" hslHex rnd fc 10000 k,
      OF pointBody_tree]
  by (simp add: shapePoints_def effectiveLeafCount_def isHighDensity_def)

lemma shapePoints_comp_tree:
  "posArray (fst (shapePoints_comp other hslHex hexRGB rnd k treeStyle fc Tree)) =
     map (\<lambda>i. treePosition hslHex rnd (k + treeDraws fc * i) fc) [0..<15000]"
  using tree_loop [of "pointBody_comp other hslHex hexRGB rnd treeStyle fc Tree" hslHex rnd fc 15000 k,
      OF pointBody_comp_tree]
  by (simp add: shapePoints_comp_def effectiveLeafCount_comp_def isHighDensity_def)

text \<open>
  Claim C5. For the shape tree and the style classic, with draws in \<open>[0, 1)\<close>: the cloud
  has 10000 points (15000 in \<^verbatim>\<open>src/components/Tree.tsx\<close>); every point has its height
  in \<open>[-9, 9]\<close> and its distance from the axis at most the radius profile of the tree at
  its height (no \<open>\<epsilon>\<close> is needed); the distance from the axis of point \<open>i\<close> is
  \<open>treeRadius\<close> of the bound \<open>8 * (1 - u)\<close> at its height and of its second and third
  draws; and \<open>treeRadius\<close> is the blended scheme: when the mode draw is below 0.4 the
  radius is linear in its draw and stays within half the bound, otherwise it is the bound
  times the square root of its draw.
\<close>

theorem C5_tree_cloud:
  assumes "uniform01 rnd"
  shows "let cloud = posArray (fst (shapePoints other hslHex hexRGB rnd k Classic fc Tree));
             cloud_comp = posArray (fst (shapePoints_comp other hslHex hexRGB rnd k Classic fc Tree))
         in length cloud = 10000 \<and> length cloud_comp = 15000 \<and>
            (\<forall>p \<in> set cloud. -9 \<le> vy p \<and> vy p \<le> 9 \<and>
                 horizontalRadius p \<le> getShapeRadiusAtY (vy p) Tree) \<and>
            (\<forall>p \<in> set cloud_comp. -9 \<le> vy p \<and> vy p \<le> 9 \<and>
                 horizontalRadius p \<le> getShapeRadiusAtY_comp (vy p) Tree) \<and>
            (\<forall>i < 10000. horizontalRadius (cloud ! i) =
                 treeRadius (8 * (1 - rnd (k + treeDraws fc * i)))
                   (rnd (k + treeDraws fc * i + 1)) (rnd (k + treeDraws fc * i + 2))) \<and>
            (\<forall>i < 15000. horizontalRadius (cloud_comp ! i) =
                 treeRadius (8 * (1 - rnd (k + treeDraws fc * i)))
                   (rnd (k + treeDraws fc * i + 1)) (rnd (k + treeDraws fc * i + 2))) \<and>
            (\<forall>rMax rMode u. 0 \<le> rMax \<and> 0 \<le> u \<and> u < 1 \<longrightarrow>
                 (rMode < 0.4 \<longrightarrow> treeRadius rMax rMode u = rMax * u * 0.5 \<and>
                                  treeRadius rMax rMode u \<le> rMax * 0.5) \<and>
                 (\<not> rMode < 0.4 \<longrightarrow> treeRadius rMax rMode u = rMax * sqrt u \<and>
                                    treeRadius rMax rMode u \<le> rMax))"
proof -
  define cloud where "cloud = posArray (fst (shapePoints other hslHex hexRGB rnd k Classic fc Tree))"
  define cloud_comp where
    "cloud_comp = posArray (fst (shapePoints_comp other hslHex hexRGB rnd k Classic fc Tree))"
  have c: "cloud = map (\<lambda>i. treePosition hslHex rnd (k + treeDraws fc * i) fc) [0..<10000]"
    unfolding cloud_def by (rule shapePoints_tree)
  have cc: "cloud_comp = map (\<lambda>i. treePosition hslHex rnd (k + treeDraws fc * i) fc) [0..<15000]"
    unfolding cloud_comp_def by (rule shapePoints_comp_tree)
  note b = treePosition_bounds [OF assms, of hslHex _ fc]
  have l: "length cloud = 10000" "length cloud_comp = 15000" by (simp_all add: c cc)
  have p1: "\<forall>p \<in> set cloud. -9 \<le> vy p \<and> vy p \<le> 9 \<and>
                 horizontalRadius p \<le> getShapeRadiusAtY (vy p) Tree"
  proof
    fix p assume "p \<in> set cloud"
    then obtain i where "p = treePosition hslHex rnd (k + treeDraws fc * i) fc"
      unfolding c by auto
    then show "-9 \<le> vy p \<and> vy p \<le> 9 \<and> horizontalRadius p \<le> getShapeRadiusAtY (vy p) Tree"
      using b [of "k + treeDraws fc * i"] by blast
  qed
  have p2: "\<forall>p \<in> set cloud_comp. -9 \<le> vy p \<and> vy p \<le> 9 \<and>
                 horizontalRadius p \<le> getShapeRadiusAtY_comp (vy p) Tree"
  proof
    fix p assume "p \<in> set cloud_comp"
    then obtain i where "p = treePosition hslHex rnd (k + treeDraws fc * i) fc"
      unfolding cc by auto
    then show "-9 \<le> vy p \<and> vy p \<le> 9 \<and> horizontalRadius p \<le> getShapeRadiusAtY_comp (vy p) Tree"
      using b [of "k + treeDraws fc * i"] by blast
  qed
  have r1: "\<forall>i < 10000. horizontalRadius (cloud ! i) =
                 treeRadius (8 * (1 - rnd (k + treeDraws fc * i)))
                   (rnd (k + treeDraws fc * i + 1)) (rnd (k + treeDraws fc * i + 2))"
  proof (intro allI impI)
    fix i :: nat assume "i < 10000"
    then have "cloud ! i = treePosition hslHex rnd (k + treeDraws fc * i) fc" by (simp add: c)
    then show "horizontalRadius (cloud ! i) =
                 treeRadius (8 * (1 - rnd (k + treeDraws fc * i)))
                   (rnd (k + treeDraws fc * i + 1)) (rnd (k + treeDraws fc * i + 2))"
      using b [of "k + treeDraws fc * i"] by simp
  qed
  have r2: "\<forall>i < 15000. horizontalRadius (cloud_comp ! i) =
                 treeRadius (8 * (1 - rnd (k + treeDraws fc * i)))
                   (rnd (k + treeDraws fc * i + 1)) (rnd (k + treeDraws fc * i + 2))"
  proof (intro allI impI)
    fix i :: nat assume "i < 15000"
    then have "cloud_comp ! i = treePosition hslHex rnd (k + treeDraws fc * i) fc" by (simp add: cc)
    then show "horizontalRadius (cloud_comp ! i) =
                 treeRadius (8 * (1 - rnd (k + treeDraws fc * i)))
                   (rnd (k + treeDraws fc * i + 1)) (rnd (k + treeDraws fc * i + 2))"
      using b [of "k + treeDraws fc * i"] by simp
  qed
  have t: "\<forall>rMax rMode u. 0 \<le> rMax \<and> 0 \<le> u \<and> u < 1 \<longrightarrow>
                 (rMode < 0.4 \<longrightarrow> treeRadius rMax rMode u = rMax * u * 0.5 \<and>
                                  treeRadius rMax rMode u \<le> rMax * 0.5) \<and>
                 (\<not> rMode < 0.4 \<longrightarrow> treeRadius rMax rMode u = rMax * sqrt u \<and>
                                    treeRadius rMax rMode u \<le> rMax)"
    using treeRadius_range by blast
  show ?thesis
    unfolding Let_def cloud_def [symmetric] cloud_comp_def [symmetric]
    using l p1 p2 r1 r2 t by (intro conjI)
qed

theorem C5_tree_cloud_witness:
  "uniform01 (\<lambda>_. 1 / 2) \<and>
   length (posArray (fst (shapePoints (\<lambda>s r k i. ((0, 0, 0, ''''), k)) (\<lambda>h s l. '''') (\<lambda>c. (0, 0, 0))
             (\<lambda>_. 1 / 2) 0 Classic ''#064e3b'' Tree))) = 10000 \<and>
   horizontalRadius (posArray (fst (shapePoints (\<lambda>s r k i. ((0, 0, 0, ''''), k)) (\<lambda>h s l. '''') (\<lambda>c. (0, 0, 0))
             (\<lambda>_. 1 / 2) 0 Classic ''#064e3b'' Tree)) ! 0) = treeRadius 4 (1 / 2) (1 / 2) \<and>
   treeRadius 4 (1 / 2) (1 / 2) = 4 * sqrt (1 / 2)"
proof -
  have u: "uniform01 (\<lambda>_. 1 / 2)" by (simp add: uniform01_def)
  note w = C5_tree_cloud [OF u, of "\<lambda>s r k i. ((0, 0, 0, ''''), k)" "\<lambda>h s l. ''''" "\<lambda>c. (0, 0, 0)"
      0 "''#064e3b''", unfolded Let_def]
  have l: "length (posArray (fst (shapePoints (\<lambda>s r k i. ((0, 0, 0, ''''), k)) (\<lambda>h s l. '''') (\<lambda>c. (0, 0, 0))
             (\<lambda>_. 1 / 2) 0 Classic ''#064e3b'' Tree))) = 10000"
    using w by (rule conjunct1)
  have "(0::nat) < 10000" by simp
  with w have "horizontalRadius (posArray (fst (shapePoints (\<lambda>s r k i. ((0, 0, 0, ''''), k)) (\<lambda>h s l. '''') (\<lambda>c. (0, 0, 0))
             (\<lambda>_. 1 / 2) 0 Classic ''#064e3b'' Tree)) ! 0) =
        treeRadius (8 * (1 - 1 / 2)) (1 / 2) (1 / 2)"
    by blast
  then have h: "horizontalRadius (posArray (fst (shapePoints (\<lambda>s r k i. ((0, 0, 0, ''''), k)) (\<lambda>h s l. '''') (\<lambda>c. (0, 0, 0))
             (\<lambda>_. 1 / 2) 0 Classic ''#064e3b'' Tree)) ! 0) = treeRadius 4 (1 / 2) (1 / 2)"
    by simp
  have t: "treeRadius 4 (1 / 2) (1 / 2) = 4 * sqrt (1 / 2)" by (simp add: treeRadius_def)
  show ?thesis using u l h t by (intro conjI)
qed

section \<open>Properties of the frame update\<close>

lemma distanceTo_vlerp: "distanceTo (vlerp a t alpha) t = \<bar>1 - alpha\<bar> * distanceTo a t"
proof -
  have e: "(vx a + (vx t - vx a) * alpha - vx t) * (vx a + (vx t - vx a) * alpha - vx t) +
        (vy a + (vy t - vy a) * alpha - vy t) * (vy a + (vy t - vy a) * alpha - vy t) +
        (vz a + (vz t - vz a) * alpha - vz t) * (vz a + (vz t - vz a) * alpha - vz t)
        = ((1 - alpha) * (1 - alpha)) *
          ((vx a - vx t) * (vx a - vx t) + (vy a - vy t) * (vy a - vy t) + (vz a - vz t) * (vz a - vz t))"
    by (simp add: algebra_simps)
  show ?thesis
    unfolding distanceTo_def vlerp_def Let_def Vector3.sel e
    by (simp add: real_sqrt_mult)
qed

lemma photoItemFrame_some:
  "photoItemFrame delta e (lay, Some obj) =
     (lay, Some (Object3D (vlerp (obj_position obj) (targetOf e (lay, Some obj)) (delta * 2))
                          (obj_scale (the (snd (photoItemFrame delta e (lay, Some obj)))))
                          (obj_rotation (the (snd (photoItemFrame delta e (lay, Some obj)))))))"
  by (simp add: photoItemFrame_def Let_def targetOf_def)

lemma frames_some:
  "\<exists>obj'. (photoItemFrame delta e ^^ n) (lay, Some obj) = (lay, Some obj') \<and>
     distanceTo (obj_position obj') (targetOf e (lay, Some obj)) =
       \<bar>1 - 2 * delta\<bar> ^ n * distanceTo (obj_position obj) (targetOf e (lay, Some obj))"
proof (induction n)
  case 0
  show ?case by simp
next
  case (Suc n)
  then obtain o1 where s: "(photoItemFrame delta e ^^ n) (lay, Some obj) = (lay, Some o1)"
    and d: "distanceTo (obj_position o1) (targetOf e (lay, Some obj)) =
       \<bar>1 - 2 * delta\<bar> ^ n * distanceTo (obj_position obj) (targetOf e (lay, Some obj))"
    by blast
  have t: "targetOf e (lay, Some o1) = targetOf e (lay, Some obj)" by (simp add: targetOf_def)
  obtain o2 where f: "photoItemFrame delta e (lay, Some o1) = (lay, Some o2)"
    and p: "obj_position o2 = vlerp (obj_position o1) (targetOf e (lay, Some obj)) (delta * 2)"
    using photoItemFrame_some [of delta e lay o1] t by (metis Object3D.sel(1))
  have "distanceTo (obj_position o2) (targetOf e (lay, Some obj)) =
        \<bar>1 - delta * 2\<bar> * distanceTo (obj_position o1) (targetOf e (lay, Some obj))"
    unfolding p by (rule distanceTo_vlerp)
  then have "distanceTo (obj_position o2) (targetOf e (lay, Some obj)) =
       \<bar>1 - 2 * delta\<bar> ^ Suc n * distanceTo (obj_position obj) (targetOf e (lay, Some obj))"
    unfolding d by (simp add: mult.commute)
  then show ?case using s f by simp
qed

lemma distanceAfter_eq:
  assumes "snd item = Some obj"
  shows "distanceAfter n delta e item = \<bar>1 - 2 * delta\<bar> ^ n * distanceTo (obj_position obj) (targetOf e item)"
proof -
  obtain lay where i: "item = (lay, Some obj)" using assms by (cases item) simp
  obtain obj' where "(photoItemFrame delta e ^^ n) (lay, Some obj) = (lay, Some obj')"
    and "distanceTo (obj_position obj') (targetOf e (lay, Some obj)) =
       \<bar>1 - 2 * delta\<bar> ^ n * distanceTo (obj_position obj) (targetOf e (lay, Some obj))"
    using frames_some [of n delta e lay obj] by blast
  then show ?thesis by (simp add: distanceAfter_def positionAfter_def i)
qed

lemma decay_120: "\<bar>1 - 2 * (1 / 60 :: real)\<bar> ^ 120 = (29 / 30) ^ 120"
  by simp

lemma decay_small: "(29 / 30 :: real) ^ 120 * 0.58 < 0.01"
  by (simp add: power_divide)

lemma decay_large: "(0.17 :: real) < (29 / 30) ^ 120 * 10"
  by (simp add: power_divide)

text \<open>
  Claim C4, as the code has it. For a photo item with a live object, a fixed target and a
  fixed frame length \<open>delta\<close>, every frame multiplies the distance between the live
  position and the target by \<open>\<bar>1 - 2 * delta\<bar>\<close>. So for \<open>0 < delta < 1\<close> the distance
  strictly decreases at every frame while it is not 0. After 120 frames of 1/60 s it is
  \<open>(29/30)^120\<close> times the starting distance, which is below 0.01 when the starting
  distance is at most 0.58.
\<close>

theorem C4_interpolation:
  assumes "snd item = Some obj"
  shows "distanceAfter n delta e item = \<bar>1 - 2 * delta\<bar> ^ n * distanceAfter 0 delta e item \<and>
         distanceAfter (Suc n) delta e item = \<bar>1 - 2 * delta\<bar> * distanceAfter n delta e item \<and>
         (0 < delta \<and> delta < 1 \<and> 0 < distanceAfter n delta e item \<longrightarrow>
            distanceAfter (Suc n) delta e item < distanceAfter n delta e item) \<and>
         distanceAfter 120 (1 / 60) e item = (29 / 30) ^ 120 * distanceAfter 0 (1 / 60) e item \<and>
         (distanceAfter 0 (1 / 60) e item \<le> 0.58 \<longrightarrow> distanceAfter 120 (1 / 60) e item < 0.01)"
proof -
  define d0 where "d0 = distanceTo (obj_position obj) (targetOf e item)"
  have d: "distanceAfter m dl e item = \<bar>1 - 2 * dl\<bar> ^ m * d0" for m dl
    unfolding d0_def by (rule distanceAfter_eq [OF assms])
  have d0: "0 \<le> d0" by (simp add: d0_def distanceTo_def Let_def)
  have a: "distanceAfter n delta e item = \<bar>1 - 2 * delta\<bar> ^ n * distanceAfter 0 delta e item"
    by (simp add: d)
  have b: "distanceAfter (Suc n) delta e item = \<bar>1 - 2 * delta\<bar> * distanceAfter n delta e item"
    by (simp add: d)
  have c: "distanceAfter (Suc n) delta e item < distanceAfter n delta e item"
    if "0 < delta \<and> delta < 1 \<and> 0 < distanceAfter n delta e item"
  proof -
    have "\<bar>1 - 2 * delta\<bar> < 1" using that by (simp add: abs_less_iff)
    then have "\<bar>1 - 2 * delta\<bar> * distanceAfter n delta e item < 1 * distanceAfter n delta e item"
      using that by (intro mult_strict_right_mono) simp_all
    then show ?thesis unfolding b by simp
  qed
  have f: "distanceAfter 120 (1 / 60) e item = (29 / 30) ^ 120 * distanceAfter 0 (1 / 60) e item"
    unfolding d decay_120 by simp
  have g: "distanceAfter 120 (1 / 60) e item < 0.01" if "distanceAfter 0 (1 / 60) e item \<le> 0.58"
  proof -
    have "d0 \<le> 0.58" using that by (simp add: d)
    then have "(29 / 30) ^ 120 * d0 \<le> (29 / 30) ^ 120 * 0.58"
      by (intro mult_left_mono) simp_all
    then show ?thesis unfolding d decay_120 using decay_small by linarith
  qed
  show ?thesis using a b c f g by blast
qed

lemma cex_start: "distanceTo (Vector3 10 0 0) (Vector3 0 0 0) = 10"
proof -
  have "sqrt (10 * 10) = \<bar>10 :: real\<bar>" by (rule real_sqrt_abs2)
  then have "sqrt (10 * 10) = (10 :: real)" by (simp only: abs_numeral)
  then show ?thesis by (simp add: distanceTo_def Let_def)
qed

theorem C4_interpolation_witness:
  "distanceAfter 120 (1 / 60) False
     (LayoutItem (Vector3 0 0 0) (Vector3 0 10 0) (Vector3 0 0 0),
      Some (Object3D (Vector3 0 0 0) (Vector3 1 1 1) (Vector3 0 0 0))) < 0.01 \<and>
   distanceAfter 1 (1 / 60) False
     (LayoutItem (Vector3 0 0 0) (Vector3 0 10 0) (Vector3 0 0 0),
      Some (Object3D (Vector3 10 0 0) (Vector3 1 1 1) (Vector3 0 0 0))) = 29 / 3"
proof -
  let ?lay = "LayoutItem (Vector3 0 0 0) (Vector3 0 10 0) (Vector3 0 0 0)"
  let ?a = "(?lay, Some (Object3D (Vector3 0 0 0) (Vector3 1 1 1) (Vector3 0 0 0)))"
  let ?b = "(?lay, Some (Object3D (Vector3 10 0 0) (Vector3 1 1 1) (Vector3 0 0 0)))"
  have a0: "distanceAfter 0 (1 / 60) False ?a = 0"
    by (simp add: distanceAfter_def positionAfter_def targetOf_def distanceTo_def)
  have b0: "distanceAfter 0 (1 / 60) False ?b = 10"
    using cex_start by (simp add: distanceAfter_def positionAfter_def targetOf_def)
  have sa: "snd ?a = Some (Object3D (Vector3 0 0 0) (Vector3 1 1 1) (Vector3 0 0 0))" by simp
  have sb: "snd ?b = Some (Object3D (Vector3 10 0 0) (Vector3 1 1 1) (Vector3 0 0 0))" by simp
  have "distanceAfter 120 (1 / 60) False ?a < 0.01"
    using C4_interpolation [OF sa, of 0 "1 / 60" False] a0 by simp
  moreover have "distanceAfter 1 (1 / 60) False ?b = 29 / 3"
    using C4_interpolation [OF sb, of 0 "1 / 60" False] b0 by simp
  ultimately show ?thesis by blast
qed

text \<open>
  Claim C4 as stated fails: from a start 10 units away from the target, the distance after
  120 frames of 1/60 s is still above 0.17; and with a frame of one second the factor
  \<open>1 - 2 * delta\<close> is \<open>-1\<close> and the distance does not decrease.
\<close>

theorem C4_convergence_counterexample:
  "0.17 < distanceAfter 120 (1 / 60) False
     (LayoutItem (Vector3 0 0 0) (Vector3 0 10 0) (Vector3 0 0 0),
      Some (Object3D (Vector3 10 0 0) (Vector3 1 1 1) (Vector3 0 0 0))) \<and>
   distanceAfter 1 1 False
     (LayoutItem (Vector3 0 0 0) (Vector3 0 10 0) (Vector3 0 0 0),
      Some (Object3D (Vector3 10 0 0) (Vector3 1 1 1) (Vector3 0 0 0))) =
   distanceAfter 0 1 False
     (LayoutItem (Vector3 0 0 0) (Vector3 0 10 0) (Vector3 0 0 0),
      Some (Object3D (Vector3 10 0 0) (Vector3 1 1 1) (Vector3 0 0 0)))"
proof -
  let ?lay = "LayoutItem (Vector3 0 0 0) (Vector3 0 10 0) (Vector3 0 0 0)"
  let ?obj = "Object3D (Vector3 10 0 0) (Vector3 1 1 1) (Vector3 0 0 0)"
  have s: "snd (?lay, Some ?obj) = Some ?obj" by simp
  have t: "targetOf False (?lay, Some ?obj) = Vector3 0 0 0" by (simp add: targetOf_def)
  have d: "distanceAfter n dl False (?lay, Some ?obj) = \<bar>1 - 2 * dl\<bar> ^ n * 10" for n dl
    using distanceAfter_eq [OF s, of n dl False] cex_start by (simp add: t)
  have "0.17 < distanceAfter 120 (1 / 60) False (?lay, Some ?obj)"
    unfolding d decay_120 by (rule decay_large)
  moreover have "distanceAfter 1 1 False (?lay, Some ?obj) = distanceAfter 0 1 False (?lay, Some ?obj)"
    unfolding d by simp
  ultimately show ?thesis by blast
qed

section \<open>Properties of the gesture handler\<close>

lemma isJump_parts [simp]:
  "list_ex isJump (a @ b) = (list_ex isJump a \<or> list_ex isJump b)"
  by (induction a) simp_all

lemma issuesJump_iff:
  "issuesJump (fst (handleGesture lg ps now u lcc g x)) =
     (g = Victory \<and> lg \<noteq> Victory \<and> filter (\<lambda>p. \<not> isEmpty p) ps \<noteq> [])"
  by (simp add: handleGesture_def issuesJump_def Let_def split_def)

lemma pick_in:
  assumes "0 \<le> u" and "u < 1" and "xs \<noteq> []"
  shows "\<exists>y \<in> set xs. pick xs u = Some y"
proof -
  define j where "j = \<lfloor>u * real (length xs)\<rfloor>"
  have len: "0 < real (length xs)" using assms(3) by simp
  have "0 \<le> u * real (length xs)" using assms(1) by simp
  then have j0: "0 \<le> j" by (simp add: j_def)
  have "u * real (length xs) < 1 * real (length xs)"
    using assms(2) len by (intro mult_strict_right_mono)
  then have "u * real (length xs) < of_int (int (length xs))" by simp
  then have j1: "j < int (length xs)" unfolding j_def by (simp only: floor_less_iff)
  have "nat j < length xs" using j0 j1 by linarith
  then have "xs ! nat j \<in> set xs" by (rule nth_mem)
  moreover have "pick xs u = Some (xs ! nat j)"
    using j0 j1 by (simp add: pick_def Let_def j_def)
  ultimately show ?thesis by blast
qed

lemma victory_actions:
  assumes "lg \<noteq> Victory"
  shows "fst (handleGesture lg ps now u lcc Victory x) =
     (if lg = Open_Palm then [SetIsExploded False] else []) @
     (if lg = Closed_Fist then [SetIsTwinkling False] else []) @
     (if filter (\<lambda>p. \<not> isEmpty p) ps \<noteq> []
      then [SetActivePhoto (pick (filter (\<lambda>p. \<not> isEmpty p) ps) u), SetMode FocusMode] else []) @
     [SetGestureX ((x - 0.5) * 4), SetLastGesture Victory]"
  using assms by (simp add: handleGesture_def Let_def split_def)

lemma jump_target:
  assumes "0 \<le> u" and "u < 1" and "issuesJump (fst (handleGesture lg ps now u lcc g x))"
  shows "\<exists>p \<in> set ps. \<not> isEmpty p \<and>
           SetActivePhoto (Some p) \<in> set (fst (handleGesture lg ps now u lcc g x)) \<and>
           SetMode FocusMode \<in> set (fst (handleGesture lg ps now u lcc g x))"
proof -
  let ?valid = "filter (\<lambda>p. \<not> isEmpty p) ps"
  have c: "g = Victory" "lg \<noteq> Victory" "?valid \<noteq> []"
    using assms(3) unfolding issuesJump_iff by blast+
  obtain p where p: "p \<in> set ?valid" "pick ?valid u = Some p"
    using pick_in [OF assms(1,2) c(3)] by blast
  have m: "p \<in> set ps" "\<not> isEmpty p" using p(1) by simp_all
  have a: "SetActivePhoto (Some p) \<in> set (fst (handleGesture lg ps now u lcc Victory x))"
    unfolding victory_actions [OF c(2)] using c(3) p(2) by simp
  have b: "SetMode FocusMode \<in> set (fst (handleGesture lg ps now u lcc Victory x))"
    unfolding victory_actions [OF c(2)] using c(3) by simp
  show ?thesis using m a b unfolding c(1) by blast
qed

lemma gestureStep_lastGesture: "lastGesture (gestureStep now u g x st) = g"
  by (simp add: gestureStep_def handleGesture_def Let_def split_def)

text \<open>
  Claim C9. The handler calls \<^verbatim>\<open>setActivePhoto\<close> exactly when the gesture is Victory, the
  recorded last gesture is not Victory, and some photo is not empty. When it does, and
  the draw lies in \<open>[0, 1)\<close>, the photo it selects is a non-empty photo of the list and
  the mode is set to focus. After every sample the recorded last gesture is the sampled
  gesture, so a Victory sample that follows a Victory sample issues no request.
\<close>

theorem C9_victory_rising_edge:
  "issuesJump (fst (handleGesture lg ps now u lcc g x)) =
     (g = Victory \<and> lg \<noteq> Victory \<and> filter (\<lambda>p. \<not> isEmpty p) ps \<noteq> []) \<and>
   (0 \<le> u \<and> u < 1 \<and> issuesJump (fst (handleGesture lg ps now u lcc g x)) \<longrightarrow>
     (\<exists>p \<in> set ps. \<not> isEmpty p \<and>
        SetActivePhoto (Some p) \<in> set (fst (handleGesture lg ps now u lcc g x)) \<and>
        SetMode FocusMode \<in> set (fst (handleGesture lg ps now u lcc g x)))) \<and>
   lastGesture (gestureStep now u g x st) = g \<and>
   \<not> issuesJump (fst (handleGesture (lastGesture (gestureStep now u Victory x st))
                       (photos (gestureStep now u Victory x st)) now2 u2
                       (lastColorChange (gestureStep now u Victory x st)) Victory x2))"
proof (intro conjI impI)
  show "issuesJump (fst (handleGesture lg ps now u lcc g x)) =
     (g = Victory \<and> lg \<noteq> Victory \<and> filter (\<lambda>p. \<not> isEmpty p) ps \<noteq> [])"
    by (rule issuesJump_iff)
next
  assume "0 \<le> u \<and> u < 1 \<and> issuesJump (fst (handleGesture lg ps now u lcc g x))"
  then show "\<exists>p \<in> set ps. \<not> isEmpty p \<and>
        SetActivePhoto (Some p) \<in> set (fst (handleGesture lg ps now u lcc g x)) \<and>
        SetMode FocusMode \<in> set (fst (handleGesture lg ps now u lcc g x))"
    using jump_target [of u lg ps now lcc g x] by blast
next
  show "lastGesture (gestureStep now u g x st) = g" by (rule gestureStep_lastGesture)
next
  show "\<not> issuesJump (fst (handleGesture (lastGesture (gestureStep now u Victory x st))
                       (photos (gestureStep now u Victory x st)) now2 u2
                       (lastColorChange (gestureStep now u Victory x st)) Victory x2))"
    unfolding issuesJump_iff gestureStep_lastGesture by simp
qed

theorem C9_victory_rising_edge_witness:
  "issuesJump (fst (handleGesture NoGesture [photoB, photoA] 1000 (1 / 2) 0 Victory (1 / 2))) \<and>
   fst (handleGesture NoGesture [photoB, photoA] 1000 (1 / 2) 0 Victory (1 / 2)) =
     [SetActivePhoto (Some photoA), SetMode FocusMode, SetGestureX 0, SetLastGesture Victory] \<and>
   \<not> issuesJump (fst (handleGesture Victory [photoB, photoA] 1100 (1 / 2) 0 Victory (1 / 2))) \<and>
   \<not> issuesJump (fst (handleGesture NoGesture [photoB] 1000 (1 / 2) 0 Victory (1 / 2)))"
proof -
  note t = C9_victory_rising_edge [of NoGesture "[photoB, photoA]" 1000 "1 / 2" 0 Victory "1 / 2"]
  have v: "filter (\<lambda>p. \<not> isEmpty p) [photoB, photoA] = [photoA]"
    by (simp add: photoA_def photoB_def)
  have a: "issuesJump (fst (handleGesture NoGesture [photoB, photoA] 1000 (1 / 2) 0 Victory (1 / 2)))"
    using t v by simp
  have pk: "pick [photoA] (1 / 2) = Some photoA" by (simp add: pick_def)
  have b: "fst (handleGesture NoGesture [photoB, photoA] 1000 (1 / 2) 0 Victory (1 / 2)) =
     [SetActivePhoto (Some photoA), SetMode FocusMode, SetGestureX 0, SetLastGesture Victory]"
    using victory_actions [of NoGesture "[photoB, photoA]" 1000 "1 / 2" 0 "1 / 2"]
    unfolding v pk by simp
  have c: "\<not> issuesJump (fst (handleGesture Victory [photoB, photoA] 1100 (1 / 2) 0 Victory (1 / 2)))"
    using C9_victory_rising_edge [of Victory "[photoB, photoA]" 1100 "1 / 2" 0 Victory "1 / 2"]
    by simp
  have d: "\<not> issuesJump (fst (handleGesture NoGesture [photoB] 1000 (1 / 2) 0 Victory (1 / 2)))"
    using C9_victory_rising_edge [of NoGesture "[photoB]" 1000 "1 / 2" 0 Victory "1 / 2"]
    by (simp add: photoB_def)
  show ?thesis using a b c d by (intro conjI)
qed

section \<open>The exploded layout and Santa's trail\<close>

































end
